theory Spec2Isabelle
  imports Complex_Main "HOL-Library.Multiset" "HOL-Library.Sublist" "HOL-Library.AList"
begin

section \<open>Data model of the sources manager\<close>

text \<open>
  A \<open>time.Time\<close> is modelled by the instant it denotes, in nanoseconds relative to the
  Unix epoch; a \<open>time.Duration\<close> is a number of nanoseconds. The zero value of
  \<open>time.Time\<close> is the first instant of year 1 (UTC).
\<close>

type_synonym time = int
type_synonym duration = int

definition zero_time :: time where
  "zero_time = - 62135596800 * 1000000000"

definition Hour :: duration where
  "Hour = 3600 * 1000000000"

definition time_Add :: "time \<Rightarrow> duration \<Rightarrow> time" where
  "time_Add t d = t + d"

definition After :: "time \<Rightarrow> time \<Rightarrow> bool" where
  "After t u = (u < t)"

definition Before :: "time \<Rightarrow> time \<Rightarrow> bool" where
  "Before t u = (t < u)"

record GitLogPerson =
  Name :: string
  Email :: string

record GitLogRecord =
  CommitHash :: string
  ParentCommitHash :: string
  Subject :: string
  Author :: GitLogPerson
  AuthoredString :: string
  Authored :: time
  Committer :: GitLogPerson
  CommittedString :: string
  Committed :: time

text \<open>The zero value of a Go struct: every field holds the zero value of its type.\<close>

definition zero_person :: GitLogPerson where
  "zero_person = \<lparr>Name = [], Email = []\<rparr>"

definition zero_record :: GitLogRecord where
  "zero_record = \<lparr>CommitHash = [], ParentCommitHash = [], Subject = [],
     Author = zero_person, AuthoredString = [], Authored = zero_time,
     Committer = zero_person, CommittedString = [], Committed = zero_time\<rparr>"

text \<open>
  Errors are values. \<open>ErrGitLogOutOfBounds\<close> is the package's sentinel; \<open>ErrNotExist\<close> is
  the error of the operating system for which \<open>os.IsNotExist\<close> holds; \<open>External\<close> is any
  other error produced by the operating system or a library routine (its text is opaque);
  \<open>Errorf msg e out\<close> is \<open>fmt.Errorf\<close> wrapping an error \<open>e\<close> and the captured output
  \<open>out\<close> under the phase message \<open>msg\<close>.
\<close>

datatype error =
    ErrGitLogOutOfBounds
  | ErrNotExist
  | External string
  | Errorf string error string

text \<open>A Go call either returns or panics (a run-time error that unwinds the call).\<close>

datatype 'a outcome = Returned 'a | Panicked

section \<open>Slices and the memory they share\<close>

text \<open>
  A Go slice is a view (pointer, length, capacity) on a backing array, and two slices
  may view the same array. The memory is a list of backing arrays of records, addressed
  by their index; a slice names its array, the index where its view starts, and its
  length. Its capacity is what remains of the array from the start of the view.
\<close>

type_synonym memory = "GitLogRecord list list"

record slice =
  s_ptr :: nat
  s_start :: nat
  s_len :: nat

definition go_cap :: "memory \<Rightarrow> slice \<Rightarrow> nat" where
  "go_cap m s = length (m ! s_ptr s) - s_start s"

definition contents :: "memory \<Rightarrow> slice \<Rightarrow> GitLogRecord list" where
  "contents m s = take (s_len s) (drop (s_start s) (m ! s_ptr s))"

definition wf_slice :: "memory \<Rightarrow> slice \<Rightarrow> bool" where
  "wf_slice m s = (s_ptr s < length m \<and> s_start s + s_len s \<le> length (m ! s_ptr s))"

text \<open>The composite literal \<open>[]GitLogRecord{}\<close>: a new slice of length and capacity 0.\<close>

definition empty_literal :: "memory \<Rightarrow> memory \<times> slice" where
  "empty_literal m = (m @ [[]], \<lparr>s_ptr = length m, s_start = 0, s_len = 0\<rparr>)"

text \<open>
  The slice expression \<open>s[lo:hi]\<close>: it panics unless \<open>0 \<le> lo \<le> hi \<le> cap(s)\<close>, and the
  result views the same array.
\<close>

definition go_slice :: "memory \<Rightarrow> slice \<Rightarrow> int \<Rightarrow> int \<Rightarrow> slice option" where
  "go_slice m s lo hi =
     (if 0 \<le> lo \<and> lo \<le> hi \<and> hi \<le> int (go_cap m s)
      then Some \<lparr>s_ptr = s_ptr s, s_start = s_start s + nat lo, s_len = nat (hi - lo)\<rparr>
      else None)"

text \<open>The index expression \<open>s[i]\<close>: it panics unless \<open>0 \<le> i < len(s)\<close>.\<close>

definition go_index :: "memory \<Rightarrow> slice \<Rightarrow> int \<Rightarrow> GitLogRecord option" where
  "go_index m s i =
     (if 0 \<le> i \<and> i < int (s_len s) then Some ((m ! s_ptr s) ! (s_start s + nat i)) else None)"

text \<open>
  The capacity of the array that \<open>append\<close> allocates when the old one is too small is
  chosen by the Go runtime: at least the length needed, and twice the old capacity when
  that is enough (the runtime grows large slices more slowly and rounds up to an
  allocation size; no statement below depends on the number).
\<close>

definition growcap :: "nat \<Rightarrow> nat \<Rightarrow> nat" where
  "growcap oldcap needed = (if 2 * oldcap < needed then needed else 2 * oldcap)"

text \<open>
  \<open>append(s, xs...)\<close>: when the capacity of \<open>s\<close> suffices the elements are written into
  the backing array of \<open>s\<close>, right after its view, and every slice that views this array
  sees them; otherwise a new array is allocated and the view is copied.
\<close>

definition go_append :: "memory \<Rightarrow> slice \<Rightarrow> GitLogRecord list \<Rightarrow> memory \<times> slice" where
  "go_append m s xs =
     (let n = s_len s + length xs in
      if n \<le> go_cap m s
      then (let arr = m ! s_ptr s; k = s_start s + s_len s
            in (m[s_ptr s := take k arr @ xs @ drop (k + length xs) arr],
                s\<lparr>s_len := n\<rparr>))
      else (m @ [contents m s @ xs @ replicate (growcap (go_cap m s) n - n) zero_record],
            \<lparr>s_ptr = length m, s_start = 0, s_len = n\<rparr>))"

text \<open>
  The manager: its field \<open>gitLog\<close> and the memory the slice points into. The mutex
  \<open>sourcesLock\<close> has no effect on a single sequential call and is not modelled.
\<close>

record SourcesManager =
  mem :: memory
  gitLog :: slice

definition stored_log :: "SourcesManager \<Rightarrow> GitLogRecord list" where
  "stored_log s = contents (mem s) (gitLog s)"

definition wf_manager :: "SourcesManager \<Rightarrow> bool" where
  "wf_manager s = wf_slice (mem s) (gitLog s)"

definition NewSourcesManager :: SourcesManager where
  "NewSourcesManager = (let (m, e) = empty_literal [] in \<lparr>mem = m, gitLog = e\<rparr>)"

section \<open>Querying the log: \<open>GetGitLog\<close>\<close>

text \<open>
  Go's \<open>int\<close> is a 64-bit two's complement integer here: the sum \<open>offset + limit\<close> wraps.
\<close>

definition wrap_int :: "int \<Rightarrow> int" where
  "wrap_int x = (x + 2 ^ 63) mod 2 ^ 64 - 2 ^ 63"

definition GetGitLog ::
  "SourcesManager \<Rightarrow> int \<Rightarrow> int \<Rightarrow> bool \<Rightarrow> (slice \<times> error option) outcome \<times> SourcesManager" where
  "GetGitLog s offset limit alwaysIncludeInitial =
     (let n = int (s_len (gitLog s)) in
      if n = 0 then
        (let (m, e) = empty_literal (mem s) in (Returned (e, None), s\<lparr>mem := m\<rparr>))
      else if offset \<ge> n then
        (let (m, e) = empty_literal (mem s)
         in (Returned (e, Some ErrGitLogOutOfBounds), s\<lparr>mem := m\<rparr>))
      else
        (let end0 = wrap_int (offset + limit);
             end1 = (if end0 > n then n else end0)
         in case go_slice (mem s) (gitLog s) offset end1 of
              None \<Rightarrow> (Panicked, s)
            | Some ret \<Rightarrow>
                if alwaysIncludeInitial then
                  (case go_index (mem s) (gitLog s) (n - 1) of
                     None \<Rightarrow> (Panicked, s)
                   | Some oldest \<Rightarrow>
                       (let (m, ret') = go_append (mem s) ret [oldest]
                        in (Returned (ret', None), s\<lparr>mem := m\<rparr>)))
                else (Returned (ret, None), s)))"

section \<open>Strings and numbers of the Go library\<close>

text \<open>
  The routines of \<open>strings\<close>, \<open>strconv\<close> and \<open>fmt\<close> that the synchronizer calls, on
  byte strings. \<open>strings.Split\<close> is only called with a separator of one character.
\<close>

definition dquote :: char where "dquote = char_of (34::nat)"
definition backslash :: char where "backslash = char_of (92::nat)"
definition newline :: char where "newline = char_of (10::nat)"
definition tab :: char where "tab = char_of (9::nat)"

fun strings_Split :: "string \<Rightarrow> char \<Rightarrow> string list" where
  "strings_Split [] sep = [[]]"
| "strings_Split (c # cs) sep =
     (case strings_Split cs sep of
        [] \<Rightarrow> [[c]]
      | p # ps \<Rightarrow> if c = sep then [] # p # ps else (c # p) # ps)"

definition strings_HasPrefix :: "string \<Rightarrow> string \<Rightarrow> bool" where
  "strings_HasPrefix s p = prefix p s"

definition strings_HasSuffix :: "string \<Rightarrow> string \<Rightarrow> bool" where
  "strings_HasSuffix s p = prefix (rev p) (rev s)"

text \<open>
  \<open>strings.Replace(s, old, new, n)\<close> for a non-empty \<open>old\<close>: the first \<open>n\<close>
  non-overlapping occurrences of \<open>old\<close>, from the left, are replaced (\<open>n < 0\<close>: all of
  them). The second argument of \<open>replace_from\<close> counts the bytes of a matched occurrence
  that are still to be skipped.
\<close>

fun replace_from :: "nat \<Rightarrow> nat \<Rightarrow> string \<Rightarrow> string \<Rightarrow> string \<Rightarrow> string" where
  "replace_from n skip old new [] = []"
| "replace_from n skip old new (c # cs) =
     (if 0 < skip then replace_from n (skip - 1) old new cs
      else if 0 < n \<and> strings_HasPrefix (c # cs) old
           then new @ replace_from (n - 1) (length old - 1) old new cs
           else c # replace_from n 0 old new cs)"

definition strings_Replace :: "string \<Rightarrow> string \<Rightarrow> string \<Rightarrow> int \<Rightarrow> string" where
  "strings_Replace s old new n =
     replace_from (if n < 0 then length s else nat n) 0 old new s"

definition strings_ReplaceAll :: "string \<Rightarrow> string \<Rightarrow> string \<Rightarrow> string" where
  "strings_ReplaceAll s old new = strings_Replace s old new (- 1)"

definition is_digit :: "char \<Rightarrow> bool" where
  "is_digit c = (48 \<le> (of_char c :: nat) \<and> (of_char c :: nat) \<le> 57)"

definition digits_value :: "string \<Rightarrow> int" where
  "digits_value ds = foldl (\<lambda>acc c. 10 * acc + ((of_char c :: int) - 48)) 0 ds"

text \<open>
  \<open>strconv.Atoi\<close>: an optional sign, then one decimal digit or more and nothing else;
  a value outside the 64-bit range is an error too.
\<close>

definition strconv_Atoi :: "string \<Rightarrow> int option" where
  "strconv_Atoi s =
     (let (neg, ds) =
            (case s of
               [] \<Rightarrow> (False, s)
             | c # cs \<Rightarrow> if c = CHR ''-'' then (True, cs)
                         else if c = CHR ''+'' then (False, cs) else (False, s));
          v = (if neg then - digits_value ds else digits_value ds)
      in if ds = [] \<or> \<not> list_all is_digit ds then None
         else if v < - (2 ^ 63) \<or> 2 ^ 63 \<le> v then None
         else Some v)"

text \<open>The verb \<open>%d\<close> of \<open>fmt.Sprintf\<close>: the decimal numeral of an integer.\<close>

function show_nat :: "nat \<Rightarrow> string" where
  "show_nat n =
     (if n < 10 then [char_of (48 + n)]
      else show_nat (n div 10) @ [char_of (48 + n mod 10)])"
  by pat_completeness auto
termination
  by (relation "measure (\<lambda>n. n)") auto

definition show_int :: "int \<Rightarrow> string" where
  "show_int i = (if i < 0 then CHR ''-'' # show_nat (nat (- i)) else show_nat (nat i))"

section \<open>The outside world of a synchronization\<close>

text \<open>
  \<open>updateCommitHistory\<close> runs git in the working tree, decodes JSON, parses dates and
  reads the clock. What these answer is not decided by the program: it is an input of the
  model.
  \<^item> \<open>run argv extra\<close> is the result of \<open>CombinedOutput\<close> (or \<open>Run\<close>) of the command
    \<open>argv\<close>, started in the sources directory with the variables \<open>extra\<close> added to the
    environment: the captured output and the error, if any;
  \<^item> \<open>json_Unmarshal_log\<close> and \<open>json_Unmarshal_pr\<close> are \<open>json.Unmarshal\<close> into a
    \<open>[]GitLogRecord\<close> and into a \<open>PRData\<close>;
  \<^item> \<open>time_Parse\<close> is \<open>time.Parse\<close> with the layout \<open>Mon, 2 Jan 2006 15:04:05 -0700\<close>;
  \<^item> \<open>time_Now pr k\<close> is the clock as read by the \<open>k\<close>-th call of \<open>time.Now()\<close>
    (counted from 0) made while pull request \<open>pr\<close> is examined.
\<close>

record PRData =
  PR_Subject :: string
  PR_AuthoredString :: string

record sync_env =
  run :: "string list \<Rightarrow> string list \<Rightarrow> string \<times> error option"
  json_Unmarshal_log :: "string \<Rightarrow> error + GitLogRecord list"
  json_Unmarshal_pr :: "string \<Rightarrow> error + PRData"
  time_Parse :: "string \<Rightarrow> error + time"
  time_Now :: "int \<Rightarrow> nat \<Rightarrow> time"

section \<open>Rebuilding the log: \<open>updateCommitHistory\<close>\<close>

definition git_log_cmd :: "string list" where
  "git_log_cmd = [''git'', ''log'',
     ''--pretty=format:{%n  $$$commit$$$: $$$%H$$$,%n  $$$parent$$$: $$$%P$$$,%n  $$$subject$$$: $$$%s$$$, %n  $$$author$$$: {%n    $$$name$$$: $$$%aN$$$,%n    $$$email$$$: $$$%aE$$$ },%n  $$$authored_date$$$: $$$%aD$$$%n ,%n  $$$committer$$$: {%n    $$$name$$$: $$$%cN$$$,%n    $$$email$$$: $$$%cE$$$},%n    $$$committed_date$$$: $$$%cD$$$%n%n},'']"

definition git_fetch_cmd :: "string list" where
  "git_fetch_cmd = [''git'', ''fetch'', ''origin'',
     ''+refs/pull/*/head:refs/remotes/origin/pr-head/*'', ''--no-recurse-submodules'']"

definition git_ls_remote_cmd :: "string list" where
  "git_ls_remote_cmd = [''git'', ''ls-remote'', ''origin'']"

definition git_log_head_cmd :: "string \<Rightarrow> string list" where
  "git_log_head_cmd commit = [''git'', ''log'', ''-n'', ''1'',
     ''--pretty=format:{%n  $$$subject$$$: $$$%s$$$, $$$authored_date$$$: $$$%aD$$$%n }'',
     commit]"

text \<open>
  The two \<open>ReplaceAll\<close> calls that turn the sentinel-delimited text into JSON: quotes
  are escaped, then each sentinel becomes a quote.
\<close>

definition sentinels_to_json :: "string \<Rightarrow> string" where
  "sentinels_to_json t =
     strings_ReplaceAll (strings_ReplaceAll t [dquote] [backslash, dquote]) ''$$$'' [dquote]"

text \<open>
  The first loop: both dates of a mainline record are parsed and the raw strings are
  cleared. The error of \<open>time.Parse\<close> is discarded (\<open>_\<close>); on an error \<open>time.Parse\<close>
  returns the zero time.
\<close>

definition parse_or_zero :: "sync_env \<Rightarrow> string \<Rightarrow> time" where
  "parse_or_zero env str = (case time_Parse env str of Inl err \<Rightarrow> zero_time | Inr t \<Rightarrow> t)"

definition parse_dates :: "sync_env \<Rightarrow> GitLogRecord \<Rightarrow> GitLogRecord" where
  "parse_dates env r =
     r\<lparr>Committed := parse_or_zero env (CommittedString r),
       Authored := parse_or_zero env (AuthoredString r),
       AuthoredString := [],
       CommittedString := []\<rparr>"

text \<open>
  The two maps \<open>prs\<close> (\<open>map[int]bool\<close>) and \<open>prHeadCommits\<close> (\<open>map[int]string\<close>) are
  association lists with one entry for a key. Reading a missing key of \<open>prs\<close> gives
  \<open>false\<close>.
\<close>

definition lookup_bool :: "(int \<times> bool) list \<Rightarrow> int \<Rightarrow> bool" where
  "lookup_bool m k = (case map_of m k of None \<Rightarrow> False | Some b \<Rightarrow> b)"

text \<open>The body of the loop over the lines of \<open>git ls-remote origin\<close>.\<close>

definition ls_remote_line ::
  "string \<Rightarrow> (int \<times> bool) list \<times> (int \<times> string) list
          \<Rightarrow> (int \<times> bool) list \<times> (int \<times> string) list" where
  "ls_remote_line line maps =
     (let (prs, prHeadCommits) = maps;
          parts = strings_Split line tab
      in if length parts = 2 then
           (if strings_HasPrefix (parts ! 1) ''refs/pull/'' then
              (let prString0 = strings_Replace (parts ! 1) ''refs/pull/'' [] 1;
                   prString = hd (strings_Split prString0 (CHR ''/''))
               in case strconv_Atoi prString of
                    None \<Rightarrow> (prs, prHeadCommits)
                  | Some pr \<Rightarrow>
                      if strings_HasSuffix (parts ! 1) ''/merge''
                      then (AList.update pr True prs, prHeadCommits)
                      else if strings_HasSuffix (parts ! 1) ''/head''
                      then (prs, AList.update pr (parts ! 0) prHeadCommits)
                      else (prs, prHeadCommits))
            else (prs, prHeadCommits))
         else (prs, prHeadCommits))"

definition ls_remote_refs :: "string \<Rightarrow> (int \<times> bool) list \<times> (int \<times> string) list" where
  "ls_remote_refs out = fold ls_remote_line (strings_Split out newline) ([], [])"

text \<open>The synthetic record of a pull request that is kept.\<close>

definition pr_record :: "int \<Rightarrow> string \<Rightarrow> string \<Rightarrow> time \<Rightarrow> GitLogRecord" where
  "pr_record pr commit subject authored =
     zero_record\<lparr>Authored := authored, Committed := authored,
       Subject := ''PR #'' @ show_int pr @ '' - '' @ subject,
       CommitHash := commit\<rparr>"

text \<open>
  The body of the loop over \<open>prHeadCommits\<close>. A failure of \<open>git log\<close> or of the JSON
  decoder is logged and the loop continues with the next pull request; so does a date
  that cannot be parsed. Go leaves the order in which \<open>range\<close> visits a map open; the
  model visits the entries in the order of the association list, and the statements below
  about the result are about the records as a collection and about the sorted list.
\<close>

definition pr_step ::
  "sync_env \<Rightarrow> (int \<times> bool) list \<Rightarrow> int \<times> string \<Rightarrow> GitLogRecord list \<Rightarrow> GitLogRecord list" where
  "pr_step env prs entry prGitLogs =
     (let (pr, commit) = entry;
          mergeable = lookup_bool prs pr
      in case run env (git_log_head_cmd commit) [] of
           (out, Some err) \<Rightarrow> prGitLogs
         | (out, None) \<Rightarrow>
             (case json_Unmarshal_pr env (sentinels_to_json out) of
                Inl err \<Rightarrow> prGitLogs
              | Inr prData \<Rightarrow>
                  (case time_Parse env (PR_AuthoredString prData) of
                     Inr authored \<Rightarrow>
                       if After authored (time_Add (time_Now env pr 0) (- 2 * 24 * Hour)) \<or>
                          (mergeable \<and>
                           After authored (time_Add (time_Now env pr 1) (- 90 * 24 * Hour)))
                       then prGitLogs @ [pr_record pr commit (PR_Subject prData) authored]
                       else prGitLogs
                   | Inl err \<Rightarrow> prGitLogs)))"

text \<open>
  \<open>sort.Slice\<close> with the comparison of the source: \<open>less(i, j)\<close> holds when record \<open>j\<close>
  was authored before record \<open>i\<close>. The library routine is not stable; the model sorts by
  insertion, and the order of records with equal dates is not used below.
\<close>

definition authored_later :: "GitLogRecord \<Rightarrow> GitLogRecord \<Rightarrow> bool" where
  "authored_later a b = Before (Authored b) (Authored a)"

fun insert_by :: "('a \<Rightarrow> 'a \<Rightarrow> bool) \<Rightarrow> 'a \<Rightarrow> 'a list \<Rightarrow> 'a list" where
  "insert_by lt x [] = [x]"
| "insert_by lt x (y # ys) = (if lt y x then y # insert_by lt x ys else x # y # ys)"

definition sort_Slice :: "('a \<Rightarrow> 'a \<Rightarrow> bool) \<Rightarrow> 'a list \<Rightarrow> 'a list" where
  "sort_Slice lt xs = foldr (insert_by lt) xs []"

text \<open>
  The whole operation. Every \<open>return\<close> of an error leaves through a branch that gives
  the manager back as it came; \<open>out[:len(out)-1]\<close> panics on an empty output; in the
  last statement \<open>newGitLog[:3]\<close> is legal up to the capacity of \<open>newGitLog\<close> but
  \<open>newGitLog[3:]\<close> needs three records, and both are evaluated before the assignment, so
  the statement panics when there are fewer than three. The calls of \<open>logging\<close> do not
  touch the manager.
\<close>

definition updateCommitHistory ::
  "sync_env \<Rightarrow> SourcesManager \<Rightarrow> error option outcome \<times> SourcesManager" where
  "updateCommitHistory env s =
     (case run env git_log_cmd [] of
        (out, Some err) \<Rightarrow>
          (Returned (Some (Errorf ''error updating commit history'' err out)), s)
      | (out, None) \<Rightarrow>
          if out = [] then (Panicked, s)
          else
            (case json_Unmarshal_log env (''['' @ sentinels_to_json (butlast out) @ '']'') of
               Inl err \<Rightarrow> (Returned (Some err), s)
             | Inr decoded \<Rightarrow>
                 (let newGitLog = map (parse_dates env) decoded
                  in case run env git_fetch_cmd [] of
                       (out, Some err) \<Rightarrow>
                         (Returned (Some (Errorf ''Failed to fetch PRs'' err out)), s)
                     | (out, None) \<Rightarrow>
                         (case run env git_ls_remote_cmd [] of
                            (out, Some err) \<Rightarrow>
                              (Returned (Some (Errorf ''Failed to fetch remote PRs'' err out)), s)
                          | (out, None) \<Rightarrow>
                              (let (prs, prHeadCommits) = ls_remote_refs out;
                                   prGitLogs = fold (pr_step env prs) prHeadCommits [];
                                   prGitLogs = sort_Slice authored_later prGitLogs
                               in if length newGitLog < 3 then (Panicked, s)
                                  else
                                    (let (m0, e) = empty_literal (mem s);
                                         (m1, a) = go_append m0 e (take 3 newGitLog);
                                         (m2, b) = go_append m1 a prGitLogs;
                                         (m3, c) = go_append m2 b (drop 3 newGitLog)
                                     in (Returned None, s\<lparr>mem := m3, gitLog := c\<rparr>)))))))"

section \<open>What the synchronizer is to compute\<close>

text \<open>
  Notions in which the statements about \<open>updateCommitHistory\<close> are phrased.
  \<open>mainline env\<close> is the mainline history after the pass over the dates, and
  \<open>remote_refs env\<close> the two maps read off the remote listing.
\<close>

definition mainline :: "sync_env \<Rightarrow> GitLogRecord list" where
  "mainline env =
     (case json_Unmarshal_log env
             (''['' @ sentinels_to_json (butlast (fst (run env git_log_cmd []))) @ '']'') of
        Inl err \<Rightarrow> []
      | Inr decoded \<Rightarrow> map (parse_dates env) decoded)"

definition remote_refs :: "sync_env \<Rightarrow> (int \<times> bool) list \<times> (int \<times> string) list" where
  "remote_refs env = ls_remote_refs (fst (run env git_ls_remote_cmd []))"

definition mergeable_pr :: "sync_env \<Rightarrow> int \<Rightarrow> bool" where
  "mergeable_pr env pr = lookup_bool (fst (remote_refs env)) pr"

text \<open>The records the loop over the pull requests collects, before they are sorted.\<close>

definition pr_records :: "sync_env \<Rightarrow> GitLogRecord list" where
  "pr_records env = fold (pr_step env (fst (remote_refs env))) (snd (remote_refs env)) []"

text \<open>
  The head record of a pull request: subject and authored instant of the most recent
  commit at its head, when \<open>git log\<close>, the decoder and the date parser all succeed.
  The pull requests considered are those with a head ref and a head record.
\<close>

definition head_record :: "sync_env \<Rightarrow> string \<Rightarrow> (string \<times> time) option" where
  "head_record env commit =
     (case run env (git_log_head_cmd commit) [] of
        (out, Some err) \<Rightarrow> None
      | (out, None) \<Rightarrow>
          (case json_Unmarshal_pr env (sentinels_to_json out) of
             Inl err \<Rightarrow> None
           | Inr prData \<Rightarrow>
               (case time_Parse env (PR_AuthoredString prData) of
                  Inl err \<Rightarrow> None
                | Inr authored \<Rightarrow> Some (PR_Subject prData, authored))))"

definition considered :: "sync_env \<Rightarrow> (int \<times> string \<times> string \<times> time) list" where
  "considered env =
     concat (map (\<lambda>(pr, commit).
                    case head_record env commit of
                      None \<Rightarrow> []
                    | Some (subject, authored) \<Rightarrow> [(pr, commit, subject, authored)])
                 (snd (remote_refs env)))"

text \<open>
  The retention policy in the words of the specification: authored within the last 48
  hours, or mergeable and authored within the last 90 days. An instant is within the last
  \<open>d\<close> of \<open>now\<close> when it lies in the stretch of length \<open>d\<close> that ends at \<open>now\<close>: later than
  \<open>now - d\<close> and not later than \<open>now\<close>. The clock is read when the test is made.
\<close>

definition within_last :: "duration \<Rightarrow> time \<Rightarrow> time \<Rightarrow> bool" where
  "within_last d now t = (now - d < t \<and> t \<le> now)"

definition claimed_retained :: "sync_env \<Rightarrow> int \<times> string \<times> string \<times> time \<Rightarrow> bool" where
  "claimed_retained env c =
     (case c of (pr, commit, subject, authored) \<Rightarrow>
        within_last (48 * Hour) (time_Now env pr 0) authored \<or>
        (mergeable_pr env pr \<and> within_last (90 * 24 * Hour) (time_Now env pr 1) authored))"

text \<open>
  The retention policy in the words of the comment in the source: less than 48 hours
  old, or mergeable and less than 90 days old. An instant is less than \<open>d\<close> old at \<open>now\<close>
  when its age \<open>now - t\<close> is below \<open>d\<close>; there is no bound on the other side, an instant
  later than \<open>now\<close> has a negative age.
\<close>

definition less_old_than :: "duration \<Rightarrow> time \<Rightarrow> time \<Rightarrow> bool" where
  "less_old_than d now t = (now - t < d)"

definition retained :: "sync_env \<Rightarrow> int \<times> string \<times> string \<times> time \<Rightarrow> bool" where
  "retained env c =
     (case c of (pr, commit, subject, authored) \<Rightarrow>
        less_old_than (48 * Hour) (time_Now env pr 0) authored \<or>
        (mergeable_pr env pr \<and> less_old_than (90 * 24 * Hour) (time_Now env pr 1) authored))"

definition synthetic_entry :: "int \<times> string \<times> string \<times> time \<Rightarrow> GitLogRecord" where
  "synthetic_entry c =
     (case c of (pr, commit, subject, authored) \<Rightarrow>
        \<lparr>CommitHash = commit, ParentCommitHash = [],
         Subject = ''PR #'' @ show_int pr @ '' - '' @ subject,
         Author = \<lparr>Name = [], Email = []\<rparr>, AuthoredString = [], Authored = authored,
         Committer = \<lparr>Name = [], Email = []\<rparr>, CommittedString = [],
         Committed = authored\<rparr>)"

definition newest_first :: "GitLogRecord list \<Rightarrow> bool" where
  "newest_first xs = sorted_wrt (\<lambda>a b. Authored b \<le> Authored a) xs"

section \<open>The outside world of a build\<close>

text \<open>
  The file system is what \<open>os.Stat\<close> answers for a path: no error, \<open>ErrNotExist\<close>, or
  another error. \<open>Compile\<close> changes it by the directory it makes, the build directory it
  removes and the archive it writes; what the commands it runs do to the working tree is
  not tracked, the answers for the paths of the working tree are those of the moment they
  are asked.
\<close>

type_synonym filesystem = "string \<Rightarrow> error option"

definition os_IsNotExist :: "error option \<Rightarrow> bool" where
  "os_IsNotExist err = (err = Some ErrNotExist)"

text \<open>
  What is not decided by the program:
  \<^item> \<open>DataDir\<close> is the value of \<open>common.DataDir()\<close>;
  \<^item> \<open>command argv extra\<close> is the result of running \<open>argv\<close> in the sources directory,
    with the variables \<open>extra\<close> appended to \<open>os.Environ()\<close>: captured output and error;
  \<^item> \<open>os_Mkdir\<close> is the error of \<open>os.Mkdir\<close>, if any;
  \<^item> \<open>archive_result src dst\<close> is the error of \<open>common.CreateArchive(src, dst)\<close>, if
    any.
\<close>

record build_env =
  DataDir :: string
  command :: "string list \<Rightarrow> string list \<Rightarrow> string \<times> error option"
  os_Mkdir :: "string \<Rightarrow> error option"
  archive_result :: "string \<Rightarrow> string \<Rightarrow> error option"

text \<open>
  What a call does to the outside, in order: values sent on the progress channel, the
  closing of the channel, commands run, and changes to the file system.
\<close>

datatype event =
    Progress real
  | Close
  | Exec "string list" "string list"
  | Mkdir string
  | RemoveAll string
  | CopyDir string string
  | CreateArchive string string

text \<open>
  \<open>filepath.Join\<close> puts a separator between the elements (the lexical cleaning of the
  result is not modelled: the paths below are built from \<open>DataDir\<close> and fixed names).
\<close>

fun filepath_Join :: "string list \<Rightarrow> string" where
  "filepath_Join [] = []"
| "filepath_Join [p] = p"
| "filepath_Join (p # q # ps) = p @ ''/'' @ filepath_Join (q # ps)"

definition sourcesDirName :: string where
  "sourcesDirName = ''sources''"

definition sourcesParentDir :: "build_env \<Rightarrow> string" where
  "sourcesParentDir env = DataDir env"

definition sourcesDir :: "build_env \<Rightarrow> string" where
  "sourcesDir env = filepath_Join [sourcesParentDir env, sourcesDirName]"

definition binariesDir :: "build_env \<Rightarrow> string" where
  "binariesDir env = filepath_Join [DataDir env, ''binaries'']"

text \<open>\<open>os.RemoveAll\<close>: the path and everything below it are gone.\<close>

definition os_RemoveAll :: "filesystem \<Rightarrow> string \<Rightarrow> filesystem" where
  "os_RemoveAll fs p =
     (\<lambda>q. if q = p \<or> strings_HasPrefix q (p @ ''/'') then Some ErrNotExist else fs q)"

text \<open>
  Modelled from the spec: \<open>common.CreateArchive\<close> is not part of the sources at hand.
  It packages a directory tree into a compressed archive at the destination path; a
  failed call leaves no archive visible.
\<close>

definition common_CreateArchive ::
  "build_env \<Rightarrow> filesystem \<Rightarrow> string \<Rightarrow> string \<Rightarrow> error option \<times> filesystem" where
  "common_CreateArchive env fs src dst =
     (case archive_result env src dst of
        Some err \<Rightarrow> (Some err, fs)
      | None \<Rightarrow> (None, fs(dst := None)))"

section \<open>Building: \<open>BinariesArchivePath\<close> and \<open>Compile\<close>\<close>

definition BinariesArchivePath ::
  "build_env \<Rightarrow> filesystem \<Rightarrow> string \<Rightarrow> bool \<Rightarrow> (error + string) \<times> filesystem \<times> event list" where
  "BinariesArchivePath env fs commitHash profilingOrDebugging =
     (let name = (if profilingOrDebugging then commitHash @ ''-profiling'' else commitHash);
          path = filepath_Join [binariesDir env, name @ ''.tar.gz'']
      in if os_IsNotExist (fs (binariesDir env)) then
           (case os_Mkdir env (binariesDir env) of
              Some err \<Rightarrow> (Inl err, fs, [Mkdir (binariesDir env)])
            | None \<Rightarrow> (Inr path, fs(binariesDir env := None), [Mkdir (binariesDir env)]))
         else (Inr path, fs, []))"

text \<open>A send on the progress channel, guarded by \<open>progress != nil\<close>.\<close>

definition send :: "bool \<Rightarrow> real \<Rightarrow> event list" where
  "send progress v = (if progress then [Progress v] else [])"

text \<open>
  The environment of a setup script: \<open>os.Environ()\<close>, with \<open>BUILD_RELEASE=1\<close> appended
  unless profiling is asked for.
\<close>

definition script_env :: "bool \<Rightarrow> string list" where
  "script_env profilingOrDebugging = (if \<not> profilingOrDebugging then [''BUILD_RELEASE=1''] else [])"

text \<open>
  One of the two blocks that run \<open>install-build-tools.sh\<close> and \<open>setup-dependencies.sh\<close>:
  a script that is there is run, and its failure is returned; a script that \<open>os.Stat\<close>
  does not find clears \<open>avoid_legacy_setup\<close>. The result is the error to return, if any,
  the flag, and the commands run.
\<close>

definition setup_block ::
  "build_env \<Rightarrow> filesystem \<Rightarrow> bool \<Rightarrow> string \<Rightarrow> string \<Rightarrow> bool
     \<Rightarrow> error option \<times> bool \<times> event list" where
  "setup_block env fs profilingOrDebugging script msg avoid_legacy_setup =
     (let fp = filepath_Join [filepath_Join [sourcesDir env, ''scripts''], script] in
      if fs fp = None then
        (case command env [''bash'', fp] (script_env profilingOrDebugging) of
           (out, Some err) \<Rightarrow>
             (Some (Errorf msg err out), False,
              [Exec [''bash'', fp] (script_env profilingOrDebugging)])
         | (out, None) \<Rightarrow>
             (None, avoid_legacy_setup, [Exec [''bash'', fp] (script_env profilingOrDebugging)]))
      else (None, False, []))"

text \<open>
  The legacy path, taken when \<open>avoid_legacy_setup\<close> has been cleared: \<open>configure.sh\<close>
  must be there and must succeed. The outer variable \<open>out\<close> is still empty when the
  error of \<open>os.Stat\<close> is wrapped.
\<close>

definition legacy_block :: "build_env \<Rightarrow> filesystem \<Rightarrow> bool \<Rightarrow> error option \<times> event list" where
  "legacy_block env fs profilingOrDebugging =
     (let fp = filepath_Join [filepath_Join [sourcesDir env, ''scripts''], ''configure.sh''] in
      case fs fp of
        Some err \<Rightarrow> (Some (Errorf ''Legacy configuration failed'' err []), [])
      | None \<Rightarrow>
          (case command env [''bash'', fp] (script_env profilingOrDebugging) of
             (out, Some err) \<Rightarrow>
               (Some (Errorf ''Legacy configuration failed'' err out),
                [Exec [''bash'', fp] (script_env profilingOrDebugging)])
           | (out, None) \<Rightarrow> (None, [Exec [''bash'', fp] (script_env profilingOrDebugging)])))"

text \<open>The environment-setup phase: the two blocks, then the legacy path if the flag is cleared.\<close>

definition environment_setup ::
  "build_env \<Rightarrow> filesystem \<Rightarrow> bool \<Rightarrow> error option \<times> event list" where
  "environment_setup env fs profilingOrDebugging =
     (case setup_block env fs profilingOrDebugging ''install-build-tools.sh''
             ''Build-environment setup failed'' True of
        (Some err, avoid1, t1) \<Rightarrow> (Some err, t1)
      | (None, avoid1, t1) \<Rightarrow>
          (case setup_block env fs profilingOrDebugging ''setup-dependencies.sh''
                  ''Dependency installation failed'' avoid1 of
             (Some err, avoid2, t2) \<Rightarrow> (Some err, t1 @ t2)
           | (None, avoid2, t2) \<Rightarrow>
               if \<not> avoid2 then
                 (case legacy_block env fs profilingOrDebugging of
                    (r, t3) \<Rightarrow> (r, t1 @ t2 @ t3))
               else (None, t1 @ t2)))"

text \<open>
  From the build script to the archive: \<open>build.sh\<close> with \<open>BUILD_PROFILING=1\<close> or
  \<open>BUILD_RELEASE=1\<close>, the copy of the RPC proxy when its directory is there (the result
  of \<open>common.CopyDir\<close> is ignored by the source), and the archive.
\<close>

definition build_and_package ::
  "build_env \<Rightarrow> filesystem \<Rightarrow> string \<Rightarrow> bool \<Rightarrow> bool \<Rightarrow> error option \<times> filesystem \<times> event list" where
  "build_and_package env fs path profilingOrDebugging progress =
     (let binariesPath = filepath_Join [sourcesDir env, ''build''];
          build = [''bash'', filepath_Join [sourcesDir env, ''scripts'', ''build.sh'']];
          benv = (if profilingOrDebugging then [''BUILD_PROFILING=1''] else [''BUILD_RELEASE=1''])
      in case command env build benv of
           (out, Some err) \<Rightarrow> (Some (Errorf ''Build failed'' err out), fs, [Exec build benv])
         | (out, None) \<Rightarrow>
             (let proxy_path = filepath_Join [sourcesDir env, ''src'', ''parsec'', ''agent'',
                                  ''runners'', ''evm'', ''rpc_proxy''];
                  dest_proxy_path = filepath_Join [binariesPath, ''src'', ''parsec'', ''agent'',
                                  ''runners'', ''evm''];
                  copy = (if \<not> os_IsNotExist (fs proxy_path)
                          then [CopyDir proxy_path dest_proxy_path] else [])
              in case common_CreateArchive env fs binariesPath path of
                   (r, fs') \<Rightarrow>
                     (r, fs', [Exec build benv] @ send progress 90 @ copy
                              @ [CreateArchive binariesPath path])))"

text \<open>
  The body of \<open>Compile\<close>, from the first statement to the \<open>return\<close> that is taken. The
  mutex is not modelled.
\<close>

definition Compile_body ::
  "build_env \<Rightarrow> filesystem \<Rightarrow> string \<Rightarrow> bool \<Rightarrow> bool \<Rightarrow> error option \<times> filesystem \<times> event list" where
  "Compile_body env fs hash profilingOrDebugging progress =
     (case BinariesArchivePath env fs hash profilingOrDebugging of
        (Inl err, fs1, t0) \<Rightarrow> (Some err, fs1, t0)
      | (Inr path, fs1, t0) \<Rightarrow>
          (let t1 = t0 @ send progress 1 @ send progress 2 in
           if \<not> os_IsNotExist (fs1 path) then (None, fs1, t1)
           else
             (case command env [''git'', ''checkout'', hash] [] of
                (out, Some err) \<Rightarrow> (Some err, fs1, t1 @ [Exec [''git'', ''checkout'', hash] []])
              | (out, None) \<Rightarrow>
                  (let t2 = t1 @ [Exec [''git'', ''checkout'', hash] []] @ send progress 5 in
                   case command env [''git'', ''submodule'', ''sync''] [] of
                     (out, Some err) \<Rightarrow>
                       (Some err, fs1, t2 @ [Exec [''git'', ''submodule'', ''sync''] []])
                   | (out, None) \<Rightarrow>
                       (let t3 = t2 @ [Exec [''git'', ''submodule'', ''sync''] []] in
                        case command env [''git'', ''submodule'', ''update'', ''--recursive''] [] of
                          (out, Some err) \<Rightarrow>
                            (Some err, fs1,
                             t3 @ [Exec [''git'', ''submodule'', ''update'', ''--recursive''] []])
                        | (out, None) \<Rightarrow>
                            (let build_dir = filepath_Join [sourcesDir env, ''build''];
                                 t4 = t3 @ [Exec [''git'', ''submodule'', ''update'', ''--recursive''] []]
                                      @ send progress 10 @ [RemoveAll build_dir];
                                 fs2 = os_RemoveAll fs1 build_dir
                             in case environment_setup env fs2 profilingOrDebugging of
                                  (Some err, t5) \<Rightarrow> (Some err, fs2, t4 @ t5)
                                | (None, t5) \<Rightarrow>
                                    (case build_and_package env fs2 path profilingOrDebugging
                                            progress of
                                       (r, fs3, t6) \<Rightarrow>
                                         (r, fs3, t4 @ t5 @ send progress 50 @ t6))))))))"

text \<open>
  \<open>Compile\<close>: the body, then the deferred function, which runs on every return: with a
  channel it sends 100 and closes the channel.
\<close>

definition Compile ::
  "build_env \<Rightarrow> filesystem \<Rightarrow> string \<Rightarrow> bool \<Rightarrow> bool \<Rightarrow> error option \<times> filesystem \<times> event list" where
  "Compile env fs hash profilingOrDebugging progress =
     (case Compile_body env fs hash profilingOrDebugging progress of
        (r, fs', t) \<Rightarrow> (r, fs', t @ (if progress then [Progress 100, Close] else [])))"

section \<open>What a build is to do\<close>

text \<open>The commands run during a call, and the traffic on the progress channel.\<close>

definition commands :: "event list \<Rightarrow> (string list \<times> string list) list" where
  "commands t = concat (map (\<lambda>e. case e of Exec argv extra \<Rightarrow> [(argv, extra)] | _ \<Rightarrow> []) t)"

definition channel_events :: "event list \<Rightarrow> event list" where
  "channel_events t =
     filter (\<lambda>e. case e of Progress v \<Rightarrow> True | Close \<Rightarrow> True | _ \<Rightarrow> False) t"

definition archive_path :: "build_env \<Rightarrow> string \<Rightarrow> bool \<Rightarrow> string" where
  "archive_path env hash profilingOrDebugging =
     filepath_Join [binariesDir env,
       (if profilingOrDebugging then hash @ ''-profiling'' else hash) @ ''.tar.gz'']"

definition script_path :: "build_env \<Rightarrow> string \<Rightarrow> string" where
  "script_path env script = filepath_Join [filepath_Join [sourcesDir env, ''scripts''], script]"

definition result_of :: "error option \<times> filesystem \<times> event list \<Rightarrow> error option" where
  "result_of x = fst x"

definition fs_of :: "error option \<times> filesystem \<times> event list \<Rightarrow> filesystem" where
  "fs_of x = fst (snd x)"

definition trace_of :: "error option \<times> filesystem \<times> event list \<Rightarrow> event list" where
  "trace_of x = snd (snd x)"

definition progress_values :: "event list \<Rightarrow> real list" where
  "progress_values t = concat (map (\<lambda>e. case e of Progress v \<Rightarrow> [v] | _ \<Rightarrow> []) t)"

definition runs :: "event list \<Rightarrow> string list \<Rightarrow> bool" where
  "runs t argv = (argv \<in> set (map fst (commands t)))"

definition in_range :: "real \<Rightarrow> bool" where
  "in_range v = (0 \<le> v \<and> v \<le> 100)"

text \<open>
  The conditions under which a call gets as far as the environment setup: the binaries
  directory is there or can be made, the archive is not there yet, and the checkout and
  the two submodule commands succeed.
\<close>

definition reaches_setup :: "build_env \<Rightarrow> filesystem \<Rightarrow> string \<Rightarrow> bool \<Rightarrow> bool" where
  "reaches_setup env fs hash profilingOrDebugging =
     ((if os_IsNotExist (fs (binariesDir env)) then os_Mkdir env (binariesDir env) = None
       else True) \<and>
      os_IsNotExist (fs (archive_path env hash profilingOrDebugging)) \<and>
      snd (command env [''git'', ''checkout'', hash] []) = None \<and>
      snd (command env [''git'', ''submodule'', ''sync''] []) = None \<and>
      snd (command env [''git'', ''submodule'', ''update'', ''--recursive''] []) = None)"

definition bash :: "string \<Rightarrow> string list" where
  "bash fp = [''bash'', fp]"

text \<open>
  A script of the working tree: whether \<open>os.Stat\<close> finds it, and what running it with the
  setup environment answers.
\<close>

definition script_present :: "filesystem \<Rightarrow> build_env \<Rightarrow> string \<Rightarrow> bool" where
  "script_present fs env script = (fs (script_path env script) = None)"

definition script_run :: "build_env \<Rightarrow> bool \<Rightarrow> string \<Rightarrow> string \<times> error option" where
  "script_run env profilingOrDebugging script =
     command env (bash (script_path env script)) (script_env profilingOrDebugging)"

definition script_succeeds :: "build_env \<Rightarrow> bool \<Rightarrow> string \<Rightarrow> bool" where
  "script_succeeds env profilingOrDebugging script =
     (snd (script_run env profilingOrDebugging script) = None)"

text \<open>The deferred function of \<open>Compile\<close>, as a piece of trace.\<close>

definition deferred :: "bool \<Rightarrow> event list" where
  "deferred progress = (if progress then [Progress 100, Close] else [])"

text \<open>The commands of the two setup blocks when neither fails: each script that is there.\<close>

definition modern_trace :: "build_env \<Rightarrow> filesystem \<Rightarrow> bool \<Rightarrow> event list" where
  "modern_trace env fs profilingOrDebugging =
     (if script_present fs env ''install-build-tools.sh''
      then [Exec (bash (script_path env ''install-build-tools.sh''))
              (script_env profilingOrDebugging)] else []) @
     (if script_present fs env ''setup-dependencies.sh''
      then [Exec (bash (script_path env ''setup-dependencies.sh''))
              (script_env profilingOrDebugging)] else [])"

text \<open>How often a trace runs the build script.\<close>

definition build_count :: "build_env \<Rightarrow> event list \<Rightarrow> nat" where
  "build_count env t =
     length (filter (\<lambda>c. fst c = bash (script_path env ''build.sh'')) (commands t))"

section \<open>Concrete managers and environments\<close>

text \<open>Inputs on which the theorems below are exercised.\<close>

definition rec_of :: "string \<Rightarrow> GitLogRecord" where
  "rec_of h = zero_record\<lparr>CommitHash := h\<rparr>"

definition manager4 :: SourcesManager where
  "manager4 = \<lparr>mem = [[rec_of ''a'', rec_of ''b'', rec_of ''c'', rec_of ''d'']],
     gitLog = \<lparr>s_ptr = 0, s_start = 0, s_len = 4\<rparr>\<rparr>"


text \<open>
  An environment with four mainline commits, the second with a date that does not
  parse, and five pull requests: number 1 authored 47 hours ago and number 2 authored 49
  hours ago, neither mergeable; number 3 authored 80 days ago and number 4 authored 91
  days ago, both mergeable; number 5, whose \<open>git log\<close> fails. The decoder of a pull
  request hands the text it is given on as the date string.
\<close>

definition raw_of :: "string \<Rightarrow> string \<Rightarrow> GitLogRecord" where
  "raw_of h d = zero_record\<lparr>CommitHash := h, AuthoredString := d, CommittedString := d\<rparr>"

definition now0 :: time where
  "now0 = 1700000000 * 1000000000"

definition ref_line :: "string \<Rightarrow> string \<Rightarrow> string" where
  "ref_line h ref = h @ [tab] @ ref @ [newline]"

definition listing :: string where
  "listing =
     ref_line ''h1'' ''refs/pull/1/head'' @ ref_line ''h2'' ''refs/pull/2/head'' @
     ref_line ''h3'' ''refs/pull/3/head'' @ ref_line ''m3'' ''refs/pull/3/merge'' @
     ref_line ''h4'' ''refs/pull/4/head'' @ ref_line ''m4'' ''refs/pull/4/merge'' @
     ref_line ''h5'' ''refs/pull/5/head'' @ ref_line ''abc'' ''refs/heads/main''"

definition env_retention :: sync_env where
  "env_retention = \<lparr>
     run = (\<lambda>argv extra.
        if argv = git_log_cmd then (''{...},'', None)
        else if argv = git_fetch_cmd then ([], None)
        else if argv = git_ls_remote_cmd then (listing, None)
        else if argv = git_log_head_cmd ''h1'' then (''47h'', None)
        else if argv = git_log_head_cmd ''h2'' then (''49h'', None)
        else if argv = git_log_head_cmd ''h3'' then (''80d'', None)
        else if argv = git_log_head_cmd ''h4'' then (''91d'', None)
        else (''fatal'', Some (External ''exit status 128''))),
     json_Unmarshal_log = (\<lambda>txt.
        Inr [raw_of ''a'' ''1h'', raw_of ''b'' ''bad'', raw_of ''c'' ''49h'', raw_of ''d'' ''80d'']),
     json_Unmarshal_pr = (\<lambda>txt. Inr \<lparr>PR_Subject = ''fix'', PR_AuthoredString = txt\<rparr>),
     time_Parse = (\<lambda>str.
        if str = ''1h'' then Inr (now0 - Hour)
        else if str = ''47h'' then Inr (now0 - 47 * Hour)
        else if str = ''49h'' then Inr (now0 - 49 * Hour)
        else if str = ''80d'' then Inr (now0 - 80 * 24 * Hour)
        else if str = ''91d'' then Inr (now0 - 91 * 24 * Hour)
        else Inl (External ''parsing time'')),
     time_Now = (\<lambda>pr k. now0)\<rparr>"

text \<open>The same environment with a mainline export that fails.\<close>

definition env_export_fails :: sync_env where
  "env_export_fails =
     env_retention\<lparr>run := (\<lambda>argv extra. (''fatal'', Some (External ''exit status 128'')))\<rparr>"

text \<open>The same environment with a mainline history of two commits.\<close>

definition env_two_commits :: sync_env where
  "env_two_commits =
     env_retention\<lparr>json_Unmarshal_log := (\<lambda>txt. Inr [raw_of ''a'' ''1h'', raw_of ''b'' ''49h''])\<rparr>"

text \<open>
  An environment with three mainline commits and one pull request, not mergeable, whose
  head commit is dated one day after the clock reading.
\<close>

definition env_future :: sync_env where
  "env_future = \<lparr>
     run = (\<lambda>argv extra.
        if argv = git_log_cmd then (''{...},'', None)
        else if argv = git_fetch_cmd then ([], None)
        else if argv = git_ls_remote_cmd then (ref_line ''h1'' ''refs/pull/1/head'', None)
        else if argv = git_log_head_cmd ''h1'' then (''tomorrow'', None)
        else (''fatal'', Some (External ''exit status 128''))),
     json_Unmarshal_log = (\<lambda>txt. Inr [raw_of ''a'' ''1h'', raw_of ''b'' ''1h'', raw_of ''c'' ''1h'']),
     json_Unmarshal_pr = (\<lambda>txt. Inr \<lparr>PR_Subject = ''fix'', PR_AuthoredString = txt\<rparr>),
     time_Parse = (\<lambda>str.
        if str = ''1h'' then Inr (now0 - Hour)
        else if str = ''tomorrow'' then Inr (now0 + 24 * Hour)
        else Inl (External ''parsing time'')),
     time_Now = (\<lambda>pr k. now0)\<rparr>"




text \<open>
  Build environments over the data directory \<open>/data\<close>: every command succeeds except
  those listed, directories can be made and archives written. A file system is given by
  the paths that are there.
\<close>

definition build_env_failing :: "string list list \<Rightarrow> build_env" where
  "build_env_failing failing = \<lparr>
     DataDir = ''/data'',
     command = (\<lambda>argv extra.
        if argv \<in> set failing then (''boom'', Some (External ''exit status 1''))
        else ([], None)),
     os_Mkdir = (\<lambda>p. None),
     archive_result = (\<lambda>src dst. None)\<rparr>"

definition fs_with :: "string list \<Rightarrow> filesystem" where
  "fs_with ps = (\<lambda>p. if p \<in> set ps then None else Some ErrNotExist)"

definition install_sh :: string where
  "install_sh = ''/data/sources/scripts/install-build-tools.sh''"

definition deps_sh :: string where
  "deps_sh = ''/data/sources/scripts/setup-dependencies.sh''"

definition configure_sh :: string where
  "configure_sh = ''/data/sources/scripts/configure.sh''"

definition build_sh :: string where
  "build_sh = ''/data/sources/scripts/build.sh''"

section \<open>Slices: what a view contains after slicing and appending\<close>

lemma inplace_contents:
  assumes "st + l + length xs \<le> length arr"
  shows "take (l + length xs) (drop st (take (st + l) arr @ xs @ drop (st + l + length xs) arr))
         = take l (drop st arr) @ xs"
proof -
  have len: "length (take (st + l) arr) = st + l" using assms by simp
  have "drop st (take (st + l) arr @ xs @ drop (st + l + length xs) arr)
        = drop st (take (st + l) arr) @ xs @ drop (st + l + length xs) arr"
    using len by simp
  also have "drop st (take (st + l) arr) = take l (drop st arr)"
    by (simp add: drop_take)
  finally have e: "drop st (take (st + l) arr @ xs @ drop (st + l + length xs) arr)
        = take l (drop st arr) @ xs @ drop (st + l + length xs) arr" .
  have l2: "length (take l (drop st arr)) = l" using assms by simp
  show ?thesis unfolding e using l2 by simp
qed

lemma contents_go_append:
  assumes "wf_slice m s" and "go_append m s xs = (m', s')"
  shows "contents m' s' = contents m s @ xs"
proof (cases "s_len s + length xs \<le> go_cap m s")
  case True
  let ?arr = "m ! s_ptr s"
  let ?k = "s_start s + s_len s"
  from True assms(1) have b: "s_start s + s_len s + length xs \<le> length ?arr"
    by (auto simp: go_cap_def wf_slice_def)
  from True assms(2) have m': "m' = m[s_ptr s := take ?k ?arr @ xs @ drop (?k + length xs) ?arr]"
    and s': "s' = s\<lparr>s_len := s_len s + length xs\<rparr>"
    by (auto simp: go_append_def Let_def)
  have "m' ! s_ptr s = take ?k ?arr @ xs @ drop (?k + length xs) ?arr"
    using assms(1) by (simp add: m' wf_slice_def)
  then show ?thesis
    using inplace_contents[OF b] by (simp add: contents_def s')
next
  case False
  with assms show ?thesis
    by (auto simp: go_append_def Let_def contents_def wf_slice_def)
qed

lemma window_take_drop:
  assumes "hi \<le> length L"
  shows "take (hi - lo) (drop lo L) = map (nth L) [lo ..< hi]"
  using assms by (intro nth_equalityI) auto

lemma length_contents: "wf_slice m s \<Longrightarrow> length (contents m s) = s_len s"
  by (auto simp: wf_slice_def contents_def)

lemma wrap_int_id: "- (2 ^ 63) \<le> x \<Longrightarrow> x < 2 ^ 63 \<Longrightarrow> wrap_int x = x"
  by (simp add: wrap_int_def)

lemma go_slice_contents:
  assumes "wf_slice m s" "0 \<le> lo" "lo \<le> hi" "hi \<le> int (s_len s)"
  shows "\<exists>s'. go_slice m s lo hi = Some s' \<and> wf_slice m s' \<and>
           contents m s' = map (nth (contents m s)) [nat lo ..< nat hi]"
proof -
  let ?s' = "\<lparr>s_ptr = s_ptr s, s_start = s_start s + nat lo, s_len = nat (hi - lo)\<rparr>"
  have cap: "hi \<le> int (go_cap m s)"
    using assms by (auto simp: wf_slice_def go_cap_def)
  then have 1: "go_slice m s lo hi = Some ?s'"
    using assms by (simp add: go_slice_def)
  have 2: "wf_slice m ?s'"
    using assms by (auto simp: wf_slice_def)
  have "nat hi \<le> length (contents m s)"
    using assms by (simp add: length_contents)
  then have "map (nth (contents m s)) [nat lo ..< nat hi]
      = take (nat hi - nat lo) (drop (nat lo) (contents m s))"
    by (simp add: window_take_drop)
  also have "\<dots> = take (nat hi - nat lo) (drop (s_start s + nat lo) (m ! s_ptr s))"
    using assms by (simp add: contents_def drop_take add.commute min_def)
  also have "nat hi - nat lo = nat (hi - lo)"
    using assms by simp
  finally have 3: "contents m ?s' = map (nth (contents m s)) [nat lo ..< nat hi]"
    by (simp add: contents_def)
  from 1 2 3 show ?thesis by blast
qed

lemma go_index_last:
  assumes "wf_slice m s" "0 < s_len s"
  shows "go_index m s (int (s_len s) - 1) = Some (last (contents m s))"
proof -
  have ne: "contents m s \<noteq> []"
    using assms length_contents[OF assms(1)] by auto
  have "last (contents m s) = contents m s ! (s_len s - 1)"
    using ne length_contents[OF assms(1)] by (simp add: last_conv_nth)
  also have "\<dots> = (m ! s_ptr s) ! (s_start s + (s_len s - 1))"
    using assms by (simp add: contents_def wf_slice_def)
  finally show ?thesis
    using assms by (simp add: go_index_def nat_diff_distrib)
qed



section \<open>\<open>GetGitLog\<close>: the window, and the write into the stored log\<close>

text \<open>The manager a program starts with is well formed.\<close>

lemma wf_NewSourcesManager: "wf_manager NewSourcesManager"
  by (simp add: wf_manager_def wf_slice_def NewSourcesManager_def empty_literal_def)

text \<open>
  The window of \<open>GetGitLog\<close> within bounds. On a well-formed manager: an empty log gives
  an empty sequence and no error, for every offset and limit; an offset at or beyond the length
  gives \<open>ErrGitLogOutOfBounds\<close>, for every limit; and for \<open>0 \<le> offset < length\<close>,
  \<open>0 \<le> limit\<close> and a sum \<open>offset + limit\<close> that fits a 64-bit \<open>int\<close>, the call returns
  the records at the indices from \<open>offset\<close> up to, not including,
  \<open>min (offset + limit) length\<close>, followed by the last record of the log when
  \<open>alwaysIncludeInitial\<close> is set.
\<close>

theorem GetGitLog_window:
  assumes wf: "wf_manager s"
  shows "(stored_log s = [] \<longrightarrow>
            (\<exists>r s'. GetGitLog s offset limit inc = (Returned (r, None), s') \<and>
                    contents (mem s') r = []))
       \<and> (stored_log s \<noteq> [] \<and> int (length (stored_log s)) \<le> offset \<longrightarrow>
            (\<exists>r s'. GetGitLog s offset limit inc = (Returned (r, Some ErrGitLogOutOfBounds), s') \<and>
                    contents (mem s') r = []))
       \<and> (stored_log s \<noteq> [] \<and> 0 \<le> offset \<and> offset < int (length (stored_log s)) \<and>
          0 \<le> limit \<and> offset + limit < 2 ^ 63 \<longrightarrow>
            (\<exists>r s'. GetGitLog s offset limit inc = (Returned (r, None), s') \<and>
                    contents (mem s') r =
                      map (nth (stored_log s))
                        [nat offset ..< min (nat (offset + limit)) (length (stored_log s))]
                      @ (if inc then [last (stored_log s)] else [])))"
proof -
  let ?g = "gitLog s" and ?m = "mem s"
  have wfs: "wf_slice ?m ?g" using wf by (simp add: wf_manager_def)
  have len: "length (stored_log s) = s_len ?g"
    using wfs by (simp add: stored_log_def length_contents)
  have emp: "stored_log s = [] \<longleftrightarrow> s_len ?g = 0"
    using len by (metis length_0_conv)
  have A: "stored_log s = [] \<longrightarrow>
            (\<exists>r s'. GetGitLog s offset limit inc = (Returned (r, None), s') \<and>
                    contents (mem s') r = [])"
  proof
    assume "stored_log s = []"
    then have "s_len ?g = 0" using len by simp
    then show "\<exists>r s'. GetGitLog s offset limit inc = (Returned (r, None), s') \<and>
                    contents (mem s') r = []"
      by (simp add: GetGitLog_def empty_literal_def contents_def)
  qed
  have B: "stored_log s \<noteq> [] \<and> int (length (stored_log s)) \<le> offset \<longrightarrow>
            (\<exists>r s'. GetGitLog s offset limit inc = (Returned (r, Some ErrGitLogOutOfBounds), s') \<and>
                    contents (mem s') r = [])"
  proof
    assume "stored_log s \<noteq> [] \<and> int (length (stored_log s)) \<le> offset"
    then have "s_len ?g \<noteq> 0" "int (s_len ?g) \<le> offset" using len emp by auto
    then show "\<exists>r s'. GetGitLog s offset limit inc
                   = (Returned (r, Some ErrGitLogOutOfBounds), s') \<and>
                    contents (mem s') r = []"
      by (simp add: GetGitLog_def empty_literal_def contents_def)
  qed
  have C: "\<exists>r s'. GetGitLog s offset limit inc = (Returned (r, None), s') \<and>
                    contents (mem s') r =
                      map (nth (stored_log s))
                        [nat offset ..< min (nat (offset + limit)) (length (stored_log s))]
                      @ (if inc then [last (stored_log s)] else [])"
    if h: "stored_log s \<noteq> []" "0 \<le> offset" "offset < int (length (stored_log s))"
          "0 \<le> limit" "offset + limit < 2 ^ 63"
  proof -
    let ?n = "int (s_len ?g)"
    let ?e = "if offset + limit > ?n then ?n else offset + limit"
    have pos: "0 < s_len ?g" using h(1) emp by auto
    have w: "wrap_int (offset + limit) = offset + limit"
      using h by (intro wrap_int_id) auto
    have "0 \<le> offset" "offset \<le> ?e" "?e \<le> ?n"
      using h len by auto
    from go_slice_contents[OF wfs this] obtain ret where
      ret: "go_slice ?m ?g offset ?e = Some ret" and wfr: "wf_slice ?m ret" and
      cr: "contents ?m ret = map (nth (contents ?m ?g)) [nat offset ..< nat ?e]"
      by blast
    have e: "nat ?e = min (nat (offset + limit)) (length (stored_log s))"
      using h len by auto
    have red: "GetGitLog s offset limit inc =
        (if inc then
           (case go_index ?m ?g (?n - 1) of
              None \<Rightarrow> (Panicked, s)
            | Some oldest \<Rightarrow>
                (let (m, ret') = go_append ?m ret [oldest]
                 in (Returned (ret', None), s\<lparr>mem := m\<rparr>)))
         else (Returned (ret, None), s))"
      using pos h(3) len ret w by (simp add: GetGitLog_def Let_def)
    show ?thesis
    proof (cases inc)
      case False
      then show ?thesis using red cr e by (simp add: stored_log_def)
    next
      case True
      obtain m' ret' where ap: "go_append ?m ret [last (stored_log s)] = (m', ret')"
        by (cases "go_append ?m ret [last (stored_log s)]")
      have "contents m' ret' = contents ?m ret @ [last (stored_log s)]"
        using contents_go_append[OF wfr ap] .
      moreover have "GetGitLog s offset limit inc = (Returned (ret', None), s\<lparr>mem := m'\<rparr>)"
        using red True go_index_last[OF wfs pos] ap by (simp add: stored_log_def)
      ultimately show ?thesis using cr e True by (simp add: stored_log_def)
    qed
  qed
  from A B C show ?thesis by blast
qed

text \<open>The window theorem on a log of four records: offset 1, limit 2, oldest included.\<close>

theorem GetGitLog_window_witness:
  "wf_manager manager4 \<and> stored_log manager4 \<noteq> [] \<and>
   (0::int) \<le> 1 \<and> (1::int) < int (length (stored_log manager4)) \<and> (0::int) \<le> 2 \<and>
   (1::int) + 2 < 2 ^ 63 \<and>
   (\<exists>r s'. GetGitLog manager4 1 2 True = (Returned (r, None), s') \<and>
       contents (mem s') r = [rec_of ''b'', rec_of ''c'', rec_of ''d''])"
proof -
  have wf: "wf_manager manager4"
    by (simp add: wf_manager_def wf_slice_def manager4_def)
  have sl: "stored_log manager4 = [rec_of ''a'', rec_of ''b'', rec_of ''c'', rec_of ''d'']"
    by (simp add: stored_log_def contents_def manager4_def)
  have u: "[nat 1 ..< min (nat (1 + 2)) 4] = [1, 2]"
    by (simp add: upt_conv_Cons)
  show ?thesis
    using GetGitLog_window[OF wf, of 1 2 True] wf u by (simp add: sl)
qed

text \<open>
  Claim C2 fails on the code. On the log \<open>a, b, c, d\<close>, offset 1 and limit \<open>2^63 - 1\<close> ask
  for the records at the indices 1, 2 and 3; the sum \<open>offset + limit\<close> wraps to a negative
  number, the clamp \<open>if end > len\<close> does not apply, and the slice expression
  \<open>s.gitLog[offset:end]\<close> panics: nothing is returned. An offset of \<open>-1\<close> passes the guard
  \<open>offset >= len\<close>, which has no lower bound, and panics in the same expression.
\<close>

theorem GetGitLog_panics_outside_bounds:
  "stored_log manager4 = [rec_of ''a'', rec_of ''b'', rec_of ''c'', rec_of ''d''] \<and>
   fst (GetGitLog manager4 1 (2 ^ 63 - 1) False) = Panicked \<and>
   fst (GetGitLog manager4 (- 1) 2 False) = Panicked"
  by (simp add: GetGitLog_def manager4_def go_slice_def wrap_int_def stored_log_def
        contents_def)

text \<open>
  What the query does to the stored log, in general: when the oldest record is asked for
  and the window ends before the end of the log, the record right after the window is
  replaced by the oldest record.
\<close>

lemma GetGitLog_overwrites_after_window:
  assumes wf: "wf_manager s"
    and b: "0 \<le> offset" "0 \<le> limit" "offset + limit < int (length (stored_log s))"
    and small: "offset + limit < 2 ^ 63"
  shows "stored_log (snd (GetGitLog s offset limit True))
           = (stored_log s)[nat (offset + limit) := last (stored_log s)]"
proof -
  let ?g = "gitLog s" and ?m = "mem s"
  let ?arr = "?m ! s_ptr ?g"
  let ?n = "int (s_len ?g)"
  have wfs: "wf_slice ?m ?g" using wf by (simp add: wf_manager_def)
  have len: "length (stored_log s) = s_len ?g"
    using wfs by (simp add: stored_log_def length_contents)
  have pos: "0 < s_len ?g" using b len by auto
  have w: "wrap_int (offset + limit) = offset + limit"
    using b small by (intro wrap_int_id) auto
  let ?ret = "\<lparr>s_ptr = s_ptr ?g, s_start = s_start ?g + nat offset, s_len = nat (offset + limit - offset)\<rparr>"
  have sl: "go_slice ?m ?g offset (offset + limit) = Some ?ret"
    using b len wfs by (auto simp: go_slice_def go_cap_def wf_slice_def)
  let ?k = "s_start ?g + nat (offset + limit)"
  have k: "?k < length ?arr"
    using b len wfs by (auto simp: wf_slice_def)
  have cap: "nat limit + 1 \<le> length ?arr - (s_start ?g + nat offset)"
    using b len wfs by (auto simp: wf_slice_def)
  have kk: "s_start ?g + nat offset + nat limit = ?k"
    using b by (simp add: nat_add_distrib)
  have ap: "go_append ?m ?ret [last (stored_log s)]
              = (?m[s_ptr ?g := ?arr[?k := last (stored_log s)]], ?ret\<lparr>s_len := s_len ?ret + 1\<rparr>)"
    using cap k kk
    by (simp add: go_append_def go_cap_def Let_def upd_conv_take_nth_drop add.assoc)
  have res: "snd (GetGitLog s offset limit True)
               = s\<lparr>mem := ?m[s_ptr ?g := ?arr[?k := last (stored_log s)]]\<rparr>"
    using pos b len sl w go_index_last[OF wfs pos] ap
    by (simp add: GetGitLog_def Let_def stored_log_def)
  have "stored_log (s\<lparr>mem := ?m[s_ptr ?g := ?arr[?k := last (stored_log s)]]\<rparr>)
          = take (s_len ?g) (drop (s_start ?g) (?arr[?k := last (stored_log s)]))"
    using wfs by (simp add: stored_log_def contents_def wf_slice_def)
  also have "\<dots> = (take (s_len ?g) (drop (s_start ?g) ?arr))[nat (offset + limit) := last (stored_log s)]"
    by (simp add: drop_update_swap take_update_swap)
  finally show ?thesis
    using res by (simp add: stored_log_def contents_def)
qed

text \<open>
  Claim C9 fails on the code. The result \<open>ret\<close> views the array of the stored log, and
  its capacity reaches to the end of that array; when the window ends before the last
  record, \<open>append\<close> writes the oldest record into the array, over the record that follows
  the window. Here the log \<open>a, b, c, d\<close> is queried with offset 0, limit 1 and
  \<open>alwaysIncludeInitial\<close>: afterwards the stored log is \<open>a, d, c, d\<close>.
\<close>

theorem GetGitLog_overwrites_stored_log:
  "stored_log manager4 = [rec_of ''a'', rec_of ''b'', rec_of ''c'', rec_of ''d''] \<and>
   stored_log (snd (GetGitLog manager4 0 1 True))
     = [rec_of ''a'', rec_of ''d'', rec_of ''c'', rec_of ''d'']"
  by (simp add: GetGitLog_def manager4_def go_slice_def wrap_int_def go_index_def
        go_append_def go_cap_def stored_log_def contents_def Let_def)

section \<open>\<open>updateCommitHistory\<close>: assembling the log\<close>

lemma wf_empty_literal:
  "empty_literal m = (m', e) \<Longrightarrow> wf_slice m' e \<and> contents m' e = []"
  by (auto simp: empty_literal_def wf_slice_def contents_def)

lemma wf_go_append:
  assumes "wf_slice m s" and "go_append m s xs = (m', s')"
  shows "wf_slice m' s'"
proof (cases "s_len s + length xs \<le> go_cap m s")
  case True
  with assms show ?thesis
    by (auto simp: go_append_def Let_def wf_slice_def go_cap_def)
next
  case False
  with assms show ?thesis
    by (auto simp: go_append_def Let_def wf_slice_def contents_def growcap_def)
qed

lemma assembled_log:
  assumes "empty_literal m = (m0, e)" "go_append m0 e A = (m1, a)"
    "go_append m1 a P = (m2, b)" "go_append m2 b B = (m3, c)"
  shows "contents m3 c = A @ P @ B" and "wf_slice m3 c"
proof -
  from wf_empty_literal[OF assms(1)] have e: "wf_slice m0 e" "contents m0 e = []" by auto
  have a: "wf_slice m1 a" "contents m1 a = A"
    using wf_go_append[OF e(1) assms(2)] contents_go_append[OF e(1) assms(2)] e(2) by auto
  have b: "wf_slice m2 b" "contents m2 b = A @ P"
    using wf_go_append[OF a(1) assms(3)] contents_go_append[OF a(1) assms(3)] a(2) by auto
  show "contents m3 c = A @ P @ B" "wf_slice m3 c"
    using wf_go_append[OF b(1) assms(4)] contents_go_append[OF b(1) assms(4)] b(2) by auto
qed

lemma sync_success:
  assumes "fst (updateCommitHistory env s) = Returned None"
  shows "stored_log (snd (updateCommitHistory env s))
           = take 3 (mainline env) @ sort_Slice authored_later (pr_records env) @ drop 3 (mainline env)"
    and "3 \<le> length (mainline env)"
    and "wf_manager (snd (updateCommitHistory env s))"
  using assms
  by (auto simp: updateCommitHistory_def Let_def mainline_def pr_records_def remote_refs_def
        stored_log_def wf_manager_def assembled_log
      split: prod.splits option.splits sum.splits if_splits)

section \<open>\<open>updateCommitHistory\<close>: the pull requests that are kept, and their order\<close>

lemma mset_insert_by: "mset (insert_by lt x ys) = add_mset x (mset ys)"
  by (induction ys) auto

lemma mset_sort_Slice: "mset (sort_Slice lt xs) = mset xs"
  by (induction xs) (auto simp: sort_Slice_def mset_insert_by)

lemma set_insert_by: "set (insert_by lt x ys) = insert x (set ys)"
  by (induction ys) auto

lemma newest_first_insert_by:
  "newest_first ys \<Longrightarrow> newest_first (insert_by authored_later x ys)"
  by (induction ys)
     (auto simp: newest_first_def authored_later_def Before_def set_insert_by)

lemma newest_first_sort_Slice: "newest_first (sort_Slice authored_later xs)"
proof (induction xs)
  case Nil
  show ?case by (simp add: sort_Slice_def newest_first_def)
next
  case (Cons x xs)
  then show ?case
    using newest_first_insert_by[of "sort_Slice authored_later xs" x]
    by (simp add: sort_Slice_def)
qed

lemma pr_record_synthetic:
  "pr_record pr commit subject authored = synthetic_entry (pr, commit, subject, authored)"
  by (simp add: pr_record_def synthetic_entry_def zero_record_def zero_person_def)

lemma window_test: "After t (time_Add now (- d)) = less_old_than d now t"
  by (auto simp: After_def time_Add_def less_old_than_def)

lemma within_last_unless_future:
  "t \<le> now \<Longrightarrow> within_last d now t = less_old_than d now t"
  by (auto simp: within_last_def less_old_than_def)

lemma claimed_retained_unless_future:
  assumes "authored \<le> time_Now env pr 0" "authored \<le> time_Now env pr 1"
  shows "claimed_retained env (pr, commit, subject, authored)
           = retained env (pr, commit, subject, authored)"
  using assms by (simp add: claimed_retained_def retained_def within_last_unless_future)

lemma pr_step_alone:
  "pr_step env (fst (remote_refs env)) (pr, commit) acc =
     acc @ (case head_record env commit of
              None \<Rightarrow> []
            | Some (subject, authored) \<Rightarrow>
                map synthetic_entry (filter (retained env) [(pr, commit, subject, authored)]))"
  by (auto simp: pr_step_def head_record_def retained_def mergeable_pr_def window_test
        pr_record_synthetic Let_def
      split: prod.splits option.splits sum.splits)

lemma fold_pr_step:
  "fold (pr_step env (fst (remote_refs env))) hs acc =
     acc @ map synthetic_entry
             (filter (retained env)
                (concat (map (\<lambda>(pr, commit).
                    case head_record env commit of
                      None \<Rightarrow> []
                    | Some (subject, authored) \<Rightarrow> [(pr, commit, subject, authored)]) hs)))"
proof (induction hs arbitrary: acc)
  case Nil
  show ?case by simp
next
  case (Cons h hs)
  obtain pr commit where h: "h = (pr, commit)" by (cases h)
  show ?case
    by (simp add: Cons.IH h pr_step_alone split: option.splits)
qed

lemma pr_records_policy:
  "pr_records env = map synthetic_entry (filter (retained env) (considered env))"
  by (simp add: pr_records_def considered_def fold_pr_step)

lemma sync_succeeds:
  assumes "run env git_log_cmd [] = (out, None)" "out \<noteq> []"
    "json_Unmarshal_log env (''['' @ sentinels_to_json (butlast out) @ '']'') = Inr decoded"
    "3 \<le> length decoded"
    "snd (run env git_fetch_cmd []) = None" "snd (run env git_ls_remote_cmd []) = None"
  shows "fst (updateCommitHistory env s) = Returned None"
proof -
  obtain out2 where f: "run env git_fetch_cmd [] = (out2, None)"
    using assms(5) by (cases "run env git_fetch_cmd []") auto
  obtain out3 where l: "run env git_ls_remote_cmd [] = (out3, None)"
    using assms(6) by (cases "run env git_ls_remote_cmd []") auto
  show ?thesis
    using assms(1-4) f l
    by (simp add: updateCommitHistory_def Let_def split: prod.splits)
qed

lemma env_retention_succeeds:
  "fst (updateCommitHistory env_retention s) = Returned None"
proof (rule sync_succeeds)
  show "run env_retention git_log_cmd [] = (''{...},'', None)"
    by (simp add: env_retention_def)
  show "''{...},'' \<noteq> []" by simp
  show "json_Unmarshal_log env_retention (''['' @ sentinels_to_json (butlast ''{...},'') @ '']'')
          = Inr [raw_of ''a'' ''1h'', raw_of ''b'' ''bad'', raw_of ''c'' ''49h'', raw_of ''d'' ''80d'']"
    by (simp add: env_retention_def)
  show "3 \<le> length [raw_of ''a'' ''1h'', raw_of ''b'' ''bad'', raw_of ''c'' ''49h'',
                      raw_of ''d'' ''80d'']"
    by simp
  show "snd (run env_retention git_fetch_cmd []) = None"
    by (simp add: env_retention_def git_log_cmd_def git_fetch_cmd_def)
  show "snd (run env_retention git_ls_remote_cmd []) = None"
    by (simp add: env_retention_def git_log_cmd_def git_fetch_cmd_def git_ls_remote_cmd_def)
qed

section \<open>\<open>updateCommitHistory\<close>: the claims\<close>

text \<open>
  Claim C1. A call of \<open>updateCommitHistory\<close> that returns an error gives the manager
  back as it was: the field \<open>gitLog\<close> and the memory behind it are those from before the
  call. The assignment to \<open>s.gitLog\<close> is the last statement before \<open>return nil\<close>.
\<close>

theorem updateCommitHistory_error_keeps_log:
  "fst (updateCommitHistory env s) = Returned (Some e) \<Longrightarrow>
   snd (updateCommitHistory env s) = s"
  by (auto simp: updateCommitHistory_def Let_def
      split: prod.splits option.splits sum.splits if_splits)

text \<open>A failing mainline export, on a manager that holds four records.\<close>

theorem updateCommitHistory_error_keeps_log_witness:
  "fst (updateCommitHistory env_export_fails manager4)
     = Returned (Some (Errorf ''error updating commit history''
                         (External ''exit status 128'') ''fatal'')) \<and>
   snd (updateCommitHistory env_export_fails manager4) = manager4"
proof -
  have f: "fst (updateCommitHistory env_export_fails manager4)
     = Returned (Some (Errorf ''error updating commit history''
                         (External ''exit status 128'') ''fatal''))"
    by (simp add: updateCommitHistory_def env_export_fails_def)
  show ?thesis
    using f updateCommitHistory_error_keeps_log[OF f] by simp
qed

text \<open>
  Claim C3 as stated fails. In \<open>env_future\<close> pull request 1 is considered, it is not
  mergeable and its head is dated one day after the clock reading, which is not within
  the last 48 hours; the synchronization succeeds and its synthetic entry is in the
  rebuilt log, after the three mainline records.
\<close>

theorem future_dated_pr_is_kept:
  "considered env_future = [(1, ''h1'', ''fix'', now0 + 24 * Hour)] \<and>
   mergeable_pr env_future 1 = False \<and>
   claimed_retained env_future (1, ''h1'', ''fix'', now0 + 24 * Hour) = False \<and>
   fst (updateCommitHistory env_future NewSourcesManager) = Returned None \<and>
   map CommitHash (stored_log (snd (updateCommitHistory env_future NewSourcesManager)))
     = [''a'', ''b'', ''c'', ''h1''] \<and>
   stored_log (snd (updateCommitHistory env_future NewSourcesManager)) ! 3
     = synthetic_entry (1, ''h1'', ''fix'', now0 + 24 * Hour)"
proof -
  have 1: "considered env_future = [(1, ''h1'', ''fix'', now0 + 24 * Hour)]"
    by code_simp
  have 2: "mergeable_pr env_future 1 = False"
    by code_simp
  have 3: "claimed_retained env_future (1, ''h1'', ''fix'', now0 + 24 * Hour) = False"
    using 2 by (simp add: claimed_retained_def within_last_def env_future_def Hour_def)
  have 4: "fst (updateCommitHistory env_future NewSourcesManager) = Returned None"
    by code_simp
  have 5: "map CommitHash (stored_log (snd (updateCommitHistory env_future NewSourcesManager)))
     = [''a'', ''b'', ''c'', ''h1'']"
    by code_simp
  have 6: "stored_log (snd (updateCommitHistory env_future NewSourcesManager)) ! 3
     = synthetic_entry (1, ''h1'', ''fix'', now0 + 24 * Hour)"
    by code_simp
  from 1 2 3 4 5 6 show ?thesis by blast
qed

text \<open>
  Claim C3, amended. After a successful synchronization the pull-request segment of the
  stored log holds, as a collection, exactly the synthetic entries of the pull requests
  considered that satisfy the policy of the source: less than 48 hours old, or mergeable
  and less than 90 days old, where a date after the clock reading counts as less old than
  any span. Every other pull request has no entry. For a date that is not after the clock
  reading this is the policy of the specification (\<open>claimed_retained_unless_future\<close>).
\<close>

theorem retention_policy_decides_entries:
  assumes "fst (updateCommitHistory env s) = Returned None"
  shows "\<exists>seg. stored_log (snd (updateCommitHistory env s))
                 = take 3 (mainline env) @ seg @ drop 3 (mainline env) \<and>
               mset seg = mset (map synthetic_entry (filter (retained env) (considered env)))"
proof -
  let ?seg = "sort_Slice authored_later (pr_records env)"
  have "stored_log (snd (updateCommitHistory env s))
          = take 3 (mainline env) @ ?seg @ drop 3 (mainline env)"
    using sync_success(1)[OF assms] .
  moreover have "mset ?seg = mset (map synthetic_entry (filter (retained env) (considered env)))"
    by (simp add: mset_sort_Slice pr_records_policy)
  ultimately show ?thesis by blast
qed

text \<open>
  The four examples of the specification: 47 hours and not mergeable is kept, 49 hours
  and not mergeable is dropped, 80 days and mergeable is kept, 91 days and mergeable is
  dropped.
\<close>

theorem retention_policy_decides_entries_witness:
  "fst (updateCommitHistory env_retention NewSourcesManager) = Returned None \<and>
   filter (retained env_retention) (considered env_retention)
     = [(1, ''h1'', ''fix'', now0 - 47 * Hour), (3, ''h3'', ''fix'', now0 - 80 * 24 * Hour)] \<and>
   (\<exists>seg. stored_log (snd (updateCommitHistory env_retention NewSourcesManager))
                 = take 3 (mainline env_retention) @ seg @ drop 3 (mainline env_retention) \<and>
          mset seg = mset (map synthetic_entry
                         [(1, ''h1'', ''fix'', now0 - 47 * Hour),
                          (3, ''h3'', ''fix'', now0 - 80 * 24 * Hour)]))"
proof -
  have ok: "fst (updateCommitHistory env_retention NewSourcesManager) = Returned None"
    by (rule env_retention_succeeds)
  have kept: "filter (retained env_retention) (considered env_retention)
     = [(1, ''h1'', ''fix'', now0 - 47 * Hour), (3, ''h3'', ''fix'', now0 - 80 * 24 * Hour)]"
    by code_simp
  show ?thesis
    using ok retention_policy_decides_entries[OF ok] by (simp add: kept)
qed

text \<open>
  Claim C4. After a successful synchronization the stored log is the first three
  mainline records in their order, then the retained pull-request records, newest first,
  then the remaining mainline records in their order.
\<close>

theorem log_is_positional_splice:
  assumes "fst (updateCommitHistory env s) = Returned None"
  shows "\<exists>seg. stored_log (snd (updateCommitHistory env s))
                 = take 3 (mainline env) @ seg @ drop 3 (mainline env) \<and>
               length (take 3 (mainline env)) = 3 \<and>
               mset seg = mset (pr_records env) \<and> newest_first seg"
proof -
  let ?seg = "sort_Slice authored_later (pr_records env)"
  have "stored_log (snd (updateCommitHistory env s))
          = take 3 (mainline env) @ ?seg @ drop 3 (mainline env)"
    using sync_success(1)[OF assms] .
  moreover have "length (take 3 (mainline env)) = 3"
    using sync_success(2)[OF assms] by simp
  moreover have "mset ?seg = mset (pr_records env)"
    by (rule mset_sort_Slice)
  moreover have "newest_first ?seg"
    by (rule newest_first_sort_Slice)
  ultimately show ?thesis by blast
qed

theorem log_is_positional_splice_witness:
  "fst (updateCommitHistory env_retention NewSourcesManager) = Returned None \<and>
   (\<exists>seg. stored_log (snd (updateCommitHistory env_retention NewSourcesManager))
                 = take 3 (mainline env_retention) @ seg @ drop 3 (mainline env_retention) \<and>
          length (take 3 (mainline env_retention)) = 3 \<and>
          mset seg = mset (pr_records env_retention) \<and> newest_first seg)"
proof -
  have ok: "fst (updateCommitHistory env_retention NewSourcesManager) = Returned None"
    by (rule env_retention_succeeds)
  show ?thesis
    using ok log_is_positional_splice[OF ok] by simp
qed




text \<open>
  Claim C10 fails on the code. With a mainline history of two commits every step
  succeeds up to the last statement, where \<open>newGitLog[3:]\<close> is out of range: the call
  panics.
\<close>

theorem updateCommitHistory_panics_on_short_history:
  "length (mainline env_two_commits) = 2 \<and>
   fst (updateCommitHistory env_two_commits NewSourcesManager) = Panicked"
proof -
  have 1: "length (mainline env_two_commits) = 2"
    by (simp add: mainline_def env_two_commits_def env_retention_def)
  have 2: "fst (updateCommitHistory env_two_commits NewSourcesManager) = Panicked"
    by (simp add: updateCommitHistory_def env_two_commits_def env_retention_def
          git_log_cmd_def git_fetch_cmd_def git_ls_remote_cmd_def split: prod.splits)
  from 1 2 show ?thesis by blast
qed

section \<open>\<open>Compile\<close>: traces, paths and phases\<close>

declare filepath_Join.simps [simp del]

lemma channel_events_append [simp]:
  "channel_events (a @ b) = channel_events a @ channel_events b"
  by (simp add: channel_events_def)

lemma progress_values_append [simp]:
  "progress_values (a @ b) = progress_values a @ progress_values b"
  by (simp add: progress_values_def)

lemma commands_append [simp]: "commands (a @ b) = commands a @ commands b"
  by (simp add: commands_def)

lemma progress_values_simps [simp]:
  "progress_values [] = []"
  "progress_values (Progress v # t) = v # progress_values t"
  "progress_values (Close # t) = progress_values t"
  "progress_values (Exec a b # t) = progress_values t"
  "progress_values (Mkdir d # t) = progress_values t"
  "progress_values (RemoveAll d # t) = progress_values t"
  "progress_values (CopyDir d d' # t) = progress_values t"
  "progress_values (CreateArchive d d' # t) = progress_values t"
  by (simp_all add: progress_values_def)

lemma commands_simps [simp]:
  "commands [] = []"
  "commands (Progress v # t) = commands t"
  "commands (Close # t) = commands t"
  "commands (Exec a b # t) = (a, b) # commands t"
  "commands (Mkdir d # t) = commands t"
  "commands (RemoveAll d # t) = commands t"
  "commands (CopyDir d d' # t) = commands t"
  "commands (CreateArchive d d' # t) = commands t"
  by (simp_all add: commands_def)

lemma channel_events_no_Close:
  "Close \<notin> set t \<Longrightarrow> channel_events t = map Progress (progress_values t)"
proof (induction t)
  case Nil
  show ?case by (simp add: channel_events_def progress_values_def)
next
  case (Cons e t)
  then show ?case
    by (cases e) (auto simp: channel_events_def progress_values_def)
qed


lemma send_facts [simp]:
  "Close \<notin> set (send p v)"
  "progress_values (send p v) = (if p then [v] else [])"
  "commands (send p v) = []"
  by (auto simp: send_def)

lemma BinariesArchivePath_trace:
  "BinariesArchivePath env fs h prof = (r, fs1, t) \<Longrightarrow>
     Close \<notin> set t \<and> progress_values t = [] \<and> commands t = []"
  by (auto simp: BinariesArchivePath_def Let_def split: if_splits option.splits)

lemma setup_block_trace:
  "setup_block env fs prof script msg flag = (r, flag', t) \<Longrightarrow>
     Close \<notin> set t \<and> progress_values t = []"
  by (auto simp: setup_block_def Let_def split: if_splits option.splits prod.splits)

lemma legacy_block_trace:
  "legacy_block env fs prof = (r, t) \<Longrightarrow> Close \<notin> set t \<and> progress_values t = []"
  by (auto simp: legacy_block_def Let_def split: if_splits option.splits prod.splits)

lemma environment_setup_trace:
  "environment_setup env fs prof = (r, t) \<Longrightarrow> Close \<notin> set t \<and> progress_values t = []"
  by (auto simp: environment_setup_def
      split: if_splits option.splits prod.splits
      dest!: setup_block_trace legacy_block_trace)

lemma build_and_package_trace:
  "build_and_package env fs path prof p = (r, fs', t) \<Longrightarrow>
     Close \<notin> set t \<and> list_all in_range (progress_values t)"
  by (auto simp: build_and_package_def Let_def in_range_def common_CreateArchive_def
      split: if_splits option.splits prod.splits)

lemma Compile_body_trace:
  "Compile_body env fs h prof p = (r, fs', t) \<Longrightarrow>
     Close \<notin> set t \<and> list_all in_range (progress_values t)"
  by (auto simp: Compile_body_def Let_def in_range_def
      split: if_splits option.splits prod.splits sum.splits
      dest!: BinariesArchivePath_trace environment_setup_trace build_and_package_trace)


lemma paths:
  "sourcesDir env = DataDir env @ ''/sources''"
  "binariesDir env = DataDir env @ ''/binaries''"
  "script_path env script = DataDir env @ ''/sources/scripts/'' @ script"
  "filepath_Join [sourcesDir env, ''build''] = DataDir env @ ''/sources/build''"
  "archive_path env hash prof =
     DataDir env @ ''/binaries/'' @ (if prof then hash @ ''-profiling'' else hash) @ ''.tar.gz''"
  by (simp_all add: sourcesDir_def binariesDir_def script_path_def archive_path_def
        sourcesParentDir_def sourcesDirName_def filepath_Join.simps)

lemma RemoveAll_build_keeps:
  "os_RemoveAll fs (filepath_Join [sourcesDir env, ''build'']) (binariesDir env)
     = fs (binariesDir env)"
  "os_RemoveAll fs (filepath_Join [sourcesDir env, ''build'']) (script_path env script)
     = fs (script_path env script)"
  by (simp_all add: os_RemoveAll_def strings_HasPrefix_def paths filepath_Join.simps)

lemma archive_is_not_dir: "archive_path env hash prof \<noteq> binariesDir env"
  by (simp add: paths)

lemma script_is_not_dir: "script_path env script \<noteq> binariesDir env"
  by (simp add: paths)

lemma BinariesArchivePath_ok:
  assumes "\<not> os_IsNotExist (fs (binariesDir env))"
  shows "BinariesArchivePath env fs hash prof = (Inr (archive_path env hash prof), fs, [])"
  using assms by (simp add: BinariesArchivePath_def Let_def archive_path_def)

lemma Compile_archive_exists:
  assumes "\<not> os_IsNotExist (fs (binariesDir env))"
    and "\<not> os_IsNotExist (fs (archive_path env hash prof))"
  shows "Compile env fs hash prof progress =
           (None, fs, send progress 1 @ send progress 2 @
                      (if progress then [Progress 100, Close] else []))"
  using assms(2) BinariesArchivePath_ok[of fs env hash prof, OF assms(1)]
  by (simp add: Compile_def Compile_body_def)


lemma build_and_package_success:
  "build_and_package env fs path prof p = (None, fs', t) \<Longrightarrow> fs' = fs(path := None)"
  by (auto simp: build_and_package_def common_CreateArchive_def Let_def
      split: prod.splits option.splits)

lemma BinariesArchivePath_cases:
  assumes "BinariesArchivePath env fs hash prof = (r, fs1, t0)"
  shows "(\<exists>err. r = Inl err) \<or>
         (r = Inr (archive_path env hash prof) \<and> \<not> os_IsNotExist (fs1 (binariesDir env)) \<and>
          (fs1 = fs \<or> fs1 = fs(binariesDir env := None)))"
  using assms
  by (auto simp: BinariesArchivePath_def archive_path_def Let_def os_IsNotExist_def
      split: if_splits option.splits)

lemma Compile_body_success_fs:
  assumes "Compile_body env fs hash prof p = (None, fs', t)"
    and "BinariesArchivePath env fs hash prof = (Inr path, fs1, t0)"
  shows "(fs' = fs1 \<and> \<not> os_IsNotExist (fs1 path)) \<or>
         fs' = (os_RemoveAll fs1 (filepath_Join [sourcesDir env, ''build'']))(path := None)"
  using assms
  by (auto simp: Compile_body_def Let_def
      split: prod.splits option.splits if_splits
      dest!: build_and_package_success)

lemma Compile_success_leaves_archive:
  assumes "result_of (Compile env fs hash prof progress) = None"
  shows "\<not> os_IsNotExist (fs_of (Compile env fs hash prof progress) (binariesDir env)) \<and>
         \<not> os_IsNotExist (fs_of (Compile env fs hash prof progress) (archive_path env hash prof))"
proof -
  obtain r fs' t where body: "Compile_body env fs hash prof progress = (r, fs', t)"
    by (cases "Compile_body env fs hash prof progress")
  then have r: "r = None" and f: "fs_of (Compile env fs hash prof progress) = fs'"
    using assms by (simp_all add: Compile_def result_of_def fs_of_def)
  obtain r0 fs1 t0 where bap: "BinariesArchivePath env fs hash prof = (r0, fs1, t0)"
    by (cases "BinariesArchivePath env fs hash prof")
  from BinariesArchivePath_cases[OF bap] show ?thesis
  proof
    assume "\<exists>err. r0 = Inl err"
    then show ?thesis using body bap r by (auto simp: Compile_body_def)
  next
    assume a: "r0 = Inr (archive_path env hash prof) \<and> \<not> os_IsNotExist (fs1 (binariesDir env)) \<and>
          (fs1 = fs \<or> fs1 = fs(binariesDir env := None))"
    let ?path = "archive_path env hash prof"
    have bap': "BinariesArchivePath env fs hash prof = (Inr ?path, fs1, t0)"
      using bap a by simp
    from Compile_body_success_fs[OF body[unfolded r] bap']
    show ?thesis
    proof
      assume "fs' = fs1 \<and> \<not> os_IsNotExist (fs1 ?path)"
      then show ?thesis using a f by simp
    next
      assume "fs' = (os_RemoveAll fs1 (filepath_Join [sourcesDir env, ''build'']))(?path := None)"
      then show ?thesis using a f
        by (auto simp: os_IsNotExist_def RemoveAll_build_keeps archive_is_not_dir)
    qed
  qed
qed


lemma runs_append [simp]: "runs (a @ b) argv = (runs a argv \<or> runs b argv)"
  by (auto simp: runs_def)

lemma runs_simps [simp]:
  "runs [] argv = False"
  "runs (Exec a e # t) argv = (argv = a \<or> runs t argv)"
  "runs (Progress v # t) argv = runs t argv"
  "runs (Close # t) argv = runs t argv"
  "runs (Mkdir d # t) argv = runs t argv"
  "runs (RemoveAll d # t) argv = runs t argv"
  "runs (CopyDir d d' # t) argv = runs t argv"
  "runs (CreateArchive d d' # t) argv = runs t argv"
  by (auto simp: runs_def)

lemma runs_send [simp]: "runs (send p v) argv = False"
  by (simp add: send_def)

lemma runs_deferred [simp]: "runs (deferred p) argv = False"
  by (simp add: deferred_def)

lemma setup_block_cong:
  assumes "fs2 (script_path env script) = fs (script_path env script)"
  shows "setup_block env fs2 prof script msg flag = setup_block env fs prof script msg flag"
  using assms by (simp add: setup_block_def script_path_def)

lemma legacy_block_cong:
  assumes "fs2 (script_path env ''configure.sh'') = fs (script_path env ''configure.sh'')"
  shows "legacy_block env fs2 prof = legacy_block env fs prof"
  using assms by (simp add: legacy_block_def script_path_def)

lemma environment_setup_cong:
  assumes "\<And>script. fs2 (script_path env script) = fs (script_path env script)"
  shows "environment_setup env fs2 prof = environment_setup env fs prof"
proof -
  have a: "\<And>script msg flag. setup_block env fs2 prof script msg flag
                               = setup_block env fs prof script msg flag"
    using assms by (rule setup_block_cong)
  have b: "legacy_block env fs2 prof = legacy_block env fs prof"
    using assms by (rule legacy_block_cong)
  show ?thesis unfolding environment_setup_def a b ..
qed

lemma build_and_package_runs:
  "build_and_package env fs path prof p = (r, fs', t) \<Longrightarrow>
     runs t argv = (argv = bash (script_path env ''build.sh''))"
  by (auto simp: build_and_package_def common_CreateArchive_def Let_def bash_def
        script_path_def filepath_Join.simps
      split: prod.splits option.splits if_splits)

lemma Compile_via_setup:
  assumes "reaches_setup env fs hash prof"
  shows "\<exists>fs2 t4. (\<forall>argv. runs t4 argv \<longrightarrow> hd argv = ''git'') \<and>
           Compile env fs hash prof progress =
             (case environment_setup env fs prof of
                (Some err, t5) \<Rightarrow> (Some err, fs2, t4 @ t5 @ deferred progress)
              | (None, t5) \<Rightarrow>
                  (case build_and_package env fs2 (archive_path env hash prof) prof progress of
                     (r, fs3, t6) \<Rightarrow>
                       (r, fs3, t4 @ t5 @ send progress 50 @ t6 @ deferred progress)))"
proof -
  obtain fs1 t0 where bap: "BinariesArchivePath env fs hash prof
                               = (Inr (archive_path env hash prof), fs1, t0)"
    and fs1: "fs1 = fs \<or> fs1 = fs(binariesDir env := None)"
    and t0: "\<forall>argv. \<not> runs t0 argv"
    using assms
    by (cases "os_IsNotExist (fs (binariesDir env))")
       (auto simp: reaches_setup_def BinariesArchivePath_def archive_path_def Let_def)
  let ?fs2 = "os_RemoveAll fs1 (filepath_Join [sourcesDir env, ''build''])"
  have scripts: "\<And>script. ?fs2 (script_path env script) = fs (script_path env script)"
    using fs1 by (auto simp: RemoveAll_build_keeps script_is_not_dir)
  have arch: "os_IsNotExist (fs1 (archive_path env hash prof))"
    using assms fs1 by (auto simp: reaches_setup_def archive_is_not_dir)
  obtain o1 where c1: "command env [''git'', ''checkout'', hash] [] = (o1, None)"
    using assms by (cases "command env [''git'', ''checkout'', hash] []")
                   (simp add: reaches_setup_def)
  obtain o2 where c2: "command env [''git'', ''submodule'', ''sync''] [] = (o2, None)"
    using assms by (cases "command env [''git'', ''submodule'', ''sync''] []")
                   (simp add: reaches_setup_def)
  obtain o3 where c3:
    "command env [''git'', ''submodule'', ''update'', ''--recursive''] [] = (o3, None)"
    using assms by (cases "command env [''git'', ''submodule'', ''update'', ''--recursive''] []")
                   (simp add: reaches_setup_def)
  let ?t4 = "t0 @ send progress 1 @ send progress 2 @ [Exec [''git'', ''checkout'', hash] []]
             @ send progress 5 @ [Exec [''git'', ''submodule'', ''sync''] []]
             @ [Exec [''git'', ''submodule'', ''update'', ''--recursive''] []]
             @ send progress 10 @ [RemoveAll (filepath_Join [sourcesDir env, ''build''])]"
  have g: "\<forall>argv. runs ?t4 argv \<longrightarrow> hd argv = ''git''"
    using t0 by auto
  have "Compile env fs hash prof progress =
             (case environment_setup env ?fs2 prof of
                (Some err, t5) \<Rightarrow> (Some err, ?fs2, ?t4 @ t5 @ deferred progress)
              | (None, t5) \<Rightarrow>
                  (case build_and_package env ?fs2 (archive_path env hash prof) prof progress of
                     (r, fs3, t6) \<Rightarrow>
                       (r, fs3, ?t4 @ t5 @ send progress 50 @ t6 @ deferred progress)))"
    unfolding Compile_def Compile_body_def bap deferred_def
    by (simp add: arch c1 c2 c3 Let_def split: prod.splits option.splits)
  then have "Compile env fs hash prof progress =
             (case environment_setup env fs prof of
                (Some err, t5) \<Rightarrow> (Some err, ?fs2, ?t4 @ t5 @ deferred progress)
              | (None, t5) \<Rightarrow>
                  (case build_and_package env ?fs2 (archive_path env hash prof) prof progress of
                     (r, fs3, t6) \<Rightarrow>
                       (r, fs3, ?t4 @ t5 @ send progress 50 @ t6 @ deferred progress)))"
    unfolding environment_setup_cong[of ?fs2 env fs prof, OF scripts] .
  with g show ?thesis by blast
qed


lemma script_path_inj: "script_path env a = script_path env b \<longleftrightarrow> a = b"
  by (simp add: paths)

lemma bash_inj: "bash a = bash b \<longleftrightarrow> a = b"
  by (simp add: bash_def)

lemma setup_block_eval:
  "setup_block env fs prof script msg flag =
     (if script_present fs env script then
        (case script_run env prof script of
           (out, Some err) \<Rightarrow>
             (Some (Errorf msg err out), False,
              [Exec (bash (script_path env script)) (script_env prof)])
         | (out, None) \<Rightarrow>
             (None, flag, [Exec (bash (script_path env script)) (script_env prof)]))
      else (None, False, []))"
  unfolding setup_block_def script_present_def script_run_def script_path_def bash_def Let_def
  by (rule refl)

lemma legacy_block_eval:
  "legacy_block env fs prof =
     (case fs (script_path env ''configure.sh'') of
        Some err \<Rightarrow> (Some (Errorf ''Legacy configuration failed'' err []), [])
      | None \<Rightarrow>
          (case script_run env prof ''configure.sh'' of
             (out, Some err) \<Rightarrow>
               (Some (Errorf ''Legacy configuration failed'' err out),
                [Exec (bash (script_path env ''configure.sh'')) (script_env prof)])
           | (out, None) \<Rightarrow>
               (None, [Exec (bash (script_path env ''configure.sh'')) (script_env prof)])))"
  unfolding legacy_block_def script_run_def script_path_def bash_def Let_def
  by (rule refl)

lemma setup_install_fails:
  assumes "script_present fs env ''install-build-tools.sh''"
    and "script_run env prof ''install-build-tools.sh'' = (out, Some err)"
  shows "environment_setup env fs prof =
           (Some (Errorf ''Build-environment setup failed'' err out),
            [Exec (bash (script_path env ''install-build-tools.sh'')) (script_env prof)])"
  using assms by (simp add: environment_setup_def setup_block_eval)

lemma modern_trace_runs:
  "\<not> runs (modern_trace env fs prof) (bash (script_path env ''configure.sh''))"
  "\<not> runs (modern_trace env fs prof) (bash (script_path env ''build.sh''))"
  by (simp_all add: modern_trace_def bash_inj script_path_inj)

lemma setup_deps_fails:
  assumes "\<not> script_present fs env ''install-build-tools.sh'' \<or>
           script_succeeds env prof ''install-build-tools.sh''"
    and "script_present fs env ''setup-dependencies.sh''"
    and "script_run env prof ''setup-dependencies.sh'' = (out, Some err)"
  shows "environment_setup env fs prof =
           (Some (Errorf ''Dependency installation failed'' err out), modern_trace env fs prof)"
  using assms
  by (cases "script_run env prof ''install-build-tools.sh''")
     (auto simp: environment_setup_def setup_block_eval script_succeeds_def modern_trace_def)

lemma setup_takes_legacy_path:
  assumes "\<not> script_present fs env ''install-build-tools.sh'' \<or>
           \<not> script_present fs env ''setup-dependencies.sh''"
    and "\<not> script_present fs env ''install-build-tools.sh'' \<or>
         script_succeeds env prof ''install-build-tools.sh''"
    and "\<not> script_present fs env ''setup-dependencies.sh'' \<or>
         script_succeeds env prof ''setup-dependencies.sh''"
  shows "environment_setup env fs prof =
           (case legacy_block env fs prof of (r, t3) \<Rightarrow> (r, modern_trace env fs prof @ t3))"
  using assms
  by (cases "script_run env prof ''install-build-tools.sh''";
      cases "script_run env prof ''setup-dependencies.sh''")
     (auto simp: environment_setup_def setup_block_eval script_succeeds_def modern_trace_def)

lemma setup_modern_path:
  assumes "script_present fs env ''install-build-tools.sh''"
    and "script_present fs env ''setup-dependencies.sh''"
    and "script_succeeds env prof ''install-build-tools.sh''"
    and "script_succeeds env prof ''setup-dependencies.sh''"
  shows "environment_setup env fs prof = (None, modern_trace env fs prof)"
  using assms
  by (cases "script_run env prof ''install-build-tools.sh''";
      cases "script_run env prof ''setup-dependencies.sh''")
     (auto simp: environment_setup_def setup_block_eval script_succeeds_def modern_trace_def)

text \<open>A call runs the build script once at most.\<close>

lemma build_count_append [simp]:
  "build_count env (a @ b) = build_count env a + build_count env b"
  by (simp add: build_count_def)

lemma build_count_simps [simp]:
  "build_count env [] = 0"
  "build_count env (send p v) = 0"
  "build_count env (deferred p) = 0"
  "build_count env (Exec (''git'' # args) e # t) = build_count env t"
  "build_count env (RemoveAll d # t) = build_count env t"
  "build_count env (modern_trace env fs prof) = 0"
  by (simp_all add: build_count_def send_def deferred_def bash_def modern_trace_def
        script_path_inj)

lemma build_count_BinariesArchivePath:
  "BinariesArchivePath env fs h prof = (r, fs1, t) \<Longrightarrow> build_count env t = 0"
  by (drule BinariesArchivePath_trace) (simp add: build_count_def)

lemma build_count_setup_block:
  "script \<noteq> ''build.sh'' \<Longrightarrow> setup_block env fs prof script msg flag = (r, flag', t) \<Longrightarrow>
     build_count env t = 0"
  by (auto simp: setup_block_eval build_count_def bash_inj script_path_inj
      split: if_splits prod.splits option.splits)

lemma build_count_legacy_block:
  "legacy_block env fs prof = (r, t) \<Longrightarrow> build_count env t = 0"
  by (auto simp: legacy_block_eval build_count_def bash_inj script_path_inj
      split: if_splits prod.splits option.splits)

lemma build_count_environment_setup:
  "environment_setup env fs prof = (r, t) \<Longrightarrow> build_count env t = 0"
  by (auto simp: environment_setup_def
      split: if_splits prod.splits option.splits
      dest!: build_count_setup_block[rotated] build_count_legacy_block)

lemma build_count_build_and_package:
  "build_and_package env fs path prof p = (r, fs', t) \<Longrightarrow> build_count env t = 1"
  by (auto simp: build_and_package_def common_CreateArchive_def Let_def bash_def
        script_path_def filepath_Join.simps build_count_def send_def
      split: prod.splits option.splits if_splits)

lemma build_count_Compile_body:
  "Compile_body env fs h prof p = (r, fs', t) \<Longrightarrow> build_count env t \<le> 1"
  by (auto simp: Compile_body_def Let_def
      split: if_splits option.splits prod.splits sum.splits
      dest!: build_count_BinariesArchivePath build_count_environment_setup
             build_count_build_and_package)

lemma build_count_Compile:
  "build_count env (trace_of (Compile env fs h prof p)) \<le> 1"
proof -
  obtain r fs' t where body: "Compile_body env fs h prof p = (r, fs', t)"
    by (cases "Compile_body env fs h prof p")
  then show ?thesis
    using build_count_Compile_body[OF body]
    by (simp add: Compile_def trace_of_def deferred_def[symmetric])
qed

section \<open>\<open>Compile\<close>: the claims\<close>

text \<open>
  Claim C5 as stated fails in its second half: a first call that fails runs the build,
  and so does the second call, which is no success either. Here \<open>build.sh\<close> fails.
\<close>

theorem failed_build_is_built_again:
  "result_of (Compile (build_env_failing [bash build_sh]) (fs_with [install_sh, deps_sh])
               ''abc'' False False)
     = Some (Errorf ''Build failed'' (External ''exit status 1'') ''boom'') \<and>
   runs (trace_of (Compile (build_env_failing [bash build_sh]) (fs_with [install_sh, deps_sh])
                     ''abc'' False False)) (bash build_sh) \<and>
   result_of (Compile (build_env_failing [bash build_sh])
               (fs_of (Compile (build_env_failing [bash build_sh]) (fs_with [install_sh, deps_sh])
                         ''abc'' False False))
               ''abc'' False False)
     = Some (Errorf ''Build failed'' (External ''exit status 1'') ''boom'') \<and>
   runs (trace_of (Compile (build_env_failing [bash build_sh])
               (fs_of (Compile (build_env_failing [bash build_sh]) (fs_with [install_sh, deps_sh])
                         ''abc'' False False))
               ''abc'' False False)) (bash build_sh)"
  by code_simp

text \<open>
  Claim C5, amended. When the binaries directory and the archive of the key are there,
  \<open>Compile\<close> returns success with the file system untouched, and the only thing it does
  is to send 1 and 2 (and 100, closing the channel, when it returns). After a call that
  returned success, a second call for the same key, whatever the commands would answer
  then, returns success in the same way and runs no command; the two calls together run
  the build script once at most.
\<close>

theorem Compile_idempotent_once_archived:
  "(\<not> os_IsNotExist (fs (binariesDir env)) \<and>
    \<not> os_IsNotExist (fs (archive_path env hash prof)) \<longrightarrow>
      Compile env fs hash prof progress
        = (None, fs, send progress 1 @ send progress 2 @ deferred progress) \<and>
      commands (trace_of (Compile env fs hash prof progress)) = [])
   \<and> (result_of (Compile env fs hash prof progress) = None \<and> DataDir env' = DataDir env \<longrightarrow>
      Compile env' (fs_of (Compile env fs hash prof progress)) hash prof progress'
        = (None, fs_of (Compile env fs hash prof progress),
           send progress' 1 @ send progress' 2 @ deferred progress') \<and>
      commands (trace_of (Compile env' (fs_of (Compile env fs hash prof progress))
                            hash prof progress')) = [] \<and>
      build_count env (trace_of (Compile env fs hash prof progress)) +
      build_count env' (trace_of (Compile env' (fs_of (Compile env fs hash prof progress))
                                    hash prof progress')) \<le> 1)"
proof -
  have A: "Compile e f hash prof p = (None, f, send p 1 @ send p 2 @ deferred p) \<and>
           commands (trace_of (Compile e f hash prof p)) = []"
    if "\<not> os_IsNotExist (f (binariesDir e))" "\<not> os_IsNotExist (f (archive_path e hash prof))"
    for e f p
    using Compile_archive_exists[OF that]
    by (simp add: trace_of_def deferred_def send_def)
  have B: "Compile env' (fs_of (Compile env fs hash prof progress)) hash prof progress'
        = (None, fs_of (Compile env fs hash prof progress),
           send progress' 1 @ send progress' 2 @ deferred progress') \<and>
      commands (trace_of (Compile env' (fs_of (Compile env fs hash prof progress))
                            hash prof progress')) = [] \<and>
      build_count env (trace_of (Compile env fs hash prof progress)) +
      build_count env' (trace_of (Compile env' (fs_of (Compile env fs hash prof progress))
                                    hash prof progress')) \<le> 1"
    if ok: "result_of (Compile env fs hash prof progress) = None" and d: "DataDir env' = DataDir env"
  proof -
    have same: "binariesDir env' = binariesDir env"
      "archive_path env' hash prof = archive_path env hash prof"
      using d by (simp_all add: paths)
    from Compile_success_leaves_archive[OF ok]
    have second: "Compile env' (fs_of (Compile env fs hash prof progress)) hash prof progress'
        = (None, fs_of (Compile env fs hash prof progress),
           send progress' 1 @ send progress' 2 @ deferred progress') \<and>
      commands (trace_of (Compile env' (fs_of (Compile env fs hash prof progress))
                            hash prof progress')) = []"
      by (intro A) (simp_all add: same)
    from second
    have "commands (trace_of (Compile env' (fs_of (Compile env fs hash prof progress))
                                hash prof progress')) = []"
      by (rule conjunct2)
    then have "build_count env'
                 (trace_of (Compile env' (fs_of (Compile env fs hash prof progress))
                              hash prof progress')) = 0"
      unfolding build_count_def by simp
    then have "build_count env (trace_of (Compile env fs hash prof progress)) +
      build_count env' (trace_of (Compile env' (fs_of (Compile env fs hash prof progress))
                                    hash prof progress')) \<le> 1"
      using build_count_Compile[of env fs hash prof progress] by linarith
    with second show ?thesis by blast
  qed
  from A B show ?thesis by blast
qed

text \<open>
  Both halves: a world where the archive of \<open>abc\<close> is there, and a fresh world in which
  a first call builds and archives and a second call, for which every command would fail,
  runs none.
\<close>

theorem Compile_idempotent_once_archived_witness:
  "Compile (build_env_failing []) (fs_with [''/data/binaries'', ''/data/binaries/abc.tar.gz''])
       ''abc'' False True
     = (None, fs_with [''/data/binaries'', ''/data/binaries/abc.tar.gz''],
        [Progress 1, Progress 2, Progress 100, Close]) \<and>
   result_of (Compile (build_env_failing []) (fs_with [deps_sh, configure_sh]) ''abc'' False True)
     = None \<and>
   runs (trace_of (Compile (build_env_failing []) (fs_with [deps_sh, configure_sh])
                     ''abc'' False True)) (bash build_sh) \<and>
   result_of (Compile (build_env_failing [bash build_sh, [''git'', ''checkout'', ''abc'']])
                (fs_of (Compile (build_env_failing []) (fs_with [deps_sh, configure_sh])
                          ''abc'' False True))
                ''abc'' False True) = None \<and>
   commands (trace_of (Compile (build_env_failing [bash build_sh, [''git'', ''checkout'', ''abc'']])
                (fs_of (Compile (build_env_failing []) (fs_with [deps_sh, configure_sh])
                          ''abc'' False True))
                ''abc'' False True)) = [] \<and>
   build_count (build_env_failing [])
     (trace_of (Compile (build_env_failing []) (fs_with [deps_sh, configure_sh])
                  ''abc'' False True)) +
   build_count (build_env_failing [bash build_sh, [''git'', ''checkout'', ''abc'']])
     (trace_of (Compile (build_env_failing [bash build_sh, [''git'', ''checkout'', ''abc'']])
                (fs_of (Compile (build_env_failing []) (fs_with [deps_sh, configure_sh])
                          ''abc'' False True))
                ''abc'' False True)) \<le> 1"
proof -
  let ?e = "build_env_failing []"
  let ?e' = "build_env_failing [bash build_sh, [''git'', ''checkout'', ''abc'']]"
  let ?f = "fs_with [''/data/binaries'', ''/data/binaries/abc.tar.gz'']"
  let ?g = "fs_with [deps_sh, configure_sh]"
  have h1: "\<not> os_IsNotExist (?f (binariesDir ?e)) \<and>
            \<not> os_IsNotExist (?f (archive_path ?e ''abc'' False))"
    by (simp add: os_IsNotExist_def fs_with_def paths build_env_failing_def)
  have 1: "Compile ?e ?f ''abc'' False True
             = (None, ?f, [Progress 1, Progress 2, Progress 100, Close])"
    using Compile_idempotent_once_archived[of ?f ?e "''abc''" False True, THEN conjunct1] h1
    by (simp add: send_def deferred_def)
  have ok: "result_of (Compile ?e ?g ''abc'' False True) = None"
    by code_simp
  have built: "runs (trace_of (Compile ?e ?g ''abc'' False True)) (bash build_sh)"
    by code_simp
  have d: "DataDir ?e' = DataDir ?e"
    by (simp add: build_env_failing_def)
  have 2: "result_of (Compile ?e' (fs_of (Compile ?e ?g ''abc'' False True)) ''abc'' False True) = None \<and>
           commands (trace_of (Compile ?e' (fs_of (Compile ?e ?g ''abc'' False True))
                                 ''abc'' False True)) = [] \<and>
           build_count ?e (trace_of (Compile ?e ?g ''abc'' False True)) +
           build_count ?e' (trace_of (Compile ?e' (fs_of (Compile ?e ?g ''abc'' False True))
                                        ''abc'' False True)) \<le> 1"
  proof -
    note c = Compile_idempotent_once_archived[of ?g ?e "''abc''" False True ?e' True,
               THEN conjunct2, THEN mp, OF conjI[OF ok d]]
    have a: "result_of (Compile ?e' (fs_of (Compile ?e ?g ''abc'' False True)) ''abc'' False True)
               = None"
      using c[THEN conjunct1] by (simp add: result_of_def)
    from a c[THEN conjunct2] show ?thesis by blast
  qed
  from 1 ok built 2 show ?thesis by blast
qed

text \<open>
  Claim C8. With a progress channel, what \<open>Compile\<close> does to the channel is, on every
  path: a sequence of sends of values between 0 and 100, then the send of 100, then the
  one close, and nothing after it.
\<close>

theorem progress_channel_protocol:
  "\<exists>vs. channel_events (trace_of (Compile env fs hash prof True))
           = map Progress vs @ [Progress 100, Close] \<and>
        list_all in_range vs"
proof -
  obtain r fs' t where body: "Compile_body env fs hash prof True = (r, fs', t)"
    by (cases "Compile_body env fs hash prof True")
  from Compile_body_trace[OF body] have nc: "Close \<notin> set t"
    and rng: "list_all in_range (progress_values t)" by auto
  have "trace_of (Compile env fs hash prof True) = t @ [Progress 100, Close]"
    using body by (simp add: Compile_def trace_of_def)
  then have "channel_events (trace_of (Compile env fs hash prof True))
               = map Progress (progress_values t) @ [Progress 100, Close]"
    using channel_events_no_Close[OF nc] by (simp add: channel_events_def)
  with rng show ?thesis by blast
qed

text \<open>
  Claim C6, for a call that gets as far as the environment setup. A setup script that
  is there and fails makes \<open>Compile\<close> return that failure, and \<open>configure.sh\<close> is not
  run. When one of the two scripts is not there and none that is there fails, the legacy
  path is taken: without \<open>configure.sh\<close>, or when it fails, \<open>Compile\<close> returns the
  legacy error and does not build; when it succeeds the build script is run next. With
  both scripts there and succeeding, \<open>configure.sh\<close> is not run.
\<close>

theorem setup_fallback_on_absence_not_on_failure:
  assumes "reaches_setup env fs hash prof"
  shows
  "(script_present fs env ''install-build-tools.sh'' \<and>
    script_run env prof ''install-build-tools.sh'' = (out, Some err) \<longrightarrow>
      result_of (Compile env fs hash prof progress)
        = Some (Errorf ''Build-environment setup failed'' err out) \<and>
      \<not> runs (trace_of (Compile env fs hash prof progress)) (bash (script_path env ''configure.sh'')))
   \<and> ((\<not> script_present fs env ''install-build-tools.sh'' \<or>
        script_succeeds env prof ''install-build-tools.sh'') \<and>
       script_present fs env ''setup-dependencies.sh'' \<and>
       script_run env prof ''setup-dependencies.sh'' = (out, Some err) \<longrightarrow>
      result_of (Compile env fs hash prof progress)
        = Some (Errorf ''Dependency installation failed'' err out) \<and>
      \<not> runs (trace_of (Compile env fs hash prof progress)) (bash (script_path env ''configure.sh'')))
   \<and> ((\<not> script_present fs env ''install-build-tools.sh'' \<or>
        \<not> script_present fs env ''setup-dependencies.sh'') \<and>
       (\<not> script_present fs env ''install-build-tools.sh'' \<or>
        script_succeeds env prof ''install-build-tools.sh'') \<and>
       (\<not> script_present fs env ''setup-dependencies.sh'' \<or>
        script_succeeds env prof ''setup-dependencies.sh'') \<longrightarrow>
        (fs (script_path env ''configure.sh'') = Some staterr \<longrightarrow>
           result_of (Compile env fs hash prof progress)
             = Some (Errorf ''Legacy configuration failed'' staterr []) \<and>
           \<not> runs (trace_of (Compile env fs hash prof progress)) (bash (script_path env ''build.sh'')))
      \<and> (script_present fs env ''configure.sh'' \<and>
          script_run env prof ''configure.sh'' = (out, Some err) \<longrightarrow>
           result_of (Compile env fs hash prof progress)
             = Some (Errorf ''Legacy configuration failed'' err out) \<and>
           runs (trace_of (Compile env fs hash prof progress)) (bash (script_path env ''configure.sh'')) \<and>
           \<not> runs (trace_of (Compile env fs hash prof progress)) (bash (script_path env ''build.sh'')))
      \<and> (script_present fs env ''configure.sh'' \<and> script_succeeds env prof ''configure.sh'' \<longrightarrow>
           runs (trace_of (Compile env fs hash prof progress)) (bash (script_path env ''configure.sh'')) \<and>
           runs (trace_of (Compile env fs hash prof progress)) (bash (script_path env ''build.sh''))))
   \<and> (script_present fs env ''install-build-tools.sh'' \<and>
       script_present fs env ''setup-dependencies.sh'' \<and>
       script_succeeds env prof ''install-build-tools.sh'' \<and>
       script_succeeds env prof ''setup-dependencies.sh'' \<longrightarrow>
      \<not> runs (trace_of (Compile env fs hash prof progress)) (bash (script_path env ''configure.sh'')) \<and>
      runs (trace_of (Compile env fs hash prof progress)) (bash (script_path env ''build.sh'')))"
proof -
  let ?C = "Compile env fs hash prof progress"
  let ?conf = "bash (script_path env ''configure.sh'')"
  let ?build = "bash (script_path env ''build.sh'')"
  from Compile_via_setup[OF assms, of progress] obtain fs2 t4 where
    g: "\<forall>argv. runs t4 argv \<longrightarrow> hd argv = ''git''" and
    C: "?C = (case environment_setup env fs prof of
                (Some err, t5) \<Rightarrow> (Some err, fs2, t4 @ t5 @ deferred progress)
              | (None, t5) \<Rightarrow>
                  (case build_and_package env fs2 (archive_path env hash prof) prof progress of
                     (r, fs3, t6) \<Rightarrow>
                       (r, fs3, t4 @ t5 @ send progress 50 @ t6 @ deferred progress)))"
    by blast
  have nog: "\<not> runs t4 (bash x)" for x
    using g by (auto simp: bash_def)
  obtain r6 fs3 t6 where
    bp: "build_and_package env fs2 (archive_path env hash prof) prof progress = (r6, fs3, t6)"
    by (cases "build_and_package env fs2 (archive_path env hash prof) prof progress")
  have t6: "runs t6 argv = (argv = ?build)" for argv
    using build_and_package_runs[OF bp] .
  note ev = result_of_def trace_of_def nog t6 bash_inj script_path_inj modern_trace_runs
  have 1: "result_of ?C = Some (Errorf ''Build-environment setup failed'' err out) \<and>
           \<not> runs (trace_of ?C) ?conf"
    if "script_present fs env ''install-build-tools.sh''"
       "script_run env prof ''install-build-tools.sh'' = (out, Some err)"
    using C setup_install_fails[OF that] by (simp add: ev)
  have 2: "result_of ?C = Some (Errorf ''Dependency installation failed'' err out) \<and>
           \<not> runs (trace_of ?C) ?conf"
    if "\<not> script_present fs env ''install-build-tools.sh'' \<or>
        script_succeeds env prof ''install-build-tools.sh''"
       "script_present fs env ''setup-dependencies.sh''"
       "script_run env prof ''setup-dependencies.sh'' = (out, Some err)"
    using C setup_deps_fails[OF that] by (simp add: ev)
  have 3: "(fs (script_path env ''configure.sh'') = Some staterr \<longrightarrow>
             result_of ?C = Some (Errorf ''Legacy configuration failed'' staterr []) \<and>
             \<not> runs (trace_of ?C) ?build)
         \<and> (script_present fs env ''configure.sh'' \<and>
             script_run env prof ''configure.sh'' = (out, Some err) \<longrightarrow>
             result_of ?C = Some (Errorf ''Legacy configuration failed'' err out) \<and>
             runs (trace_of ?C) ?conf \<and> \<not> runs (trace_of ?C) ?build)
         \<and> (script_present fs env ''configure.sh'' \<and> script_succeeds env prof ''configure.sh'' \<longrightarrow>
             runs (trace_of ?C) ?conf \<and> runs (trace_of ?C) ?build)"
    if "\<not> script_present fs env ''install-build-tools.sh'' \<or>
        \<not> script_present fs env ''setup-dependencies.sh''"
       "\<not> script_present fs env ''install-build-tools.sh'' \<or>
        script_succeeds env prof ''install-build-tools.sh''"
       "\<not> script_present fs env ''setup-dependencies.sh'' \<or>
        script_succeeds env prof ''setup-dependencies.sh''"
  proof -
    note S = setup_takes_legacy_path[OF that]
    have a: "result_of ?C = Some (Errorf ''Legacy configuration failed'' staterr []) \<and>
             \<not> runs (trace_of ?C) ?build"
      if "fs (script_path env ''configure.sh'') = Some staterr"
      using C S that by (simp add: legacy_block_eval ev)
    have b: "result_of ?C = Some (Errorf ''Legacy configuration failed'' err out) \<and>
             runs (trace_of ?C) ?conf \<and> \<not> runs (trace_of ?C) ?build"
      if "script_present fs env ''configure.sh''"
         "script_run env prof ''configure.sh'' = (out, Some err)"
      using C S that by (simp add: legacy_block_eval script_present_def ev)
    have c: "runs (trace_of ?C) ?conf \<and> runs (trace_of ?C) ?build"
      if p: "script_present fs env ''configure.sh''"
        and q: "script_succeeds env prof ''configure.sh''"
    proof -
      obtain o1 where "script_run env prof ''configure.sh'' = (o1, None)"
        using q by (cases "script_run env prof ''configure.sh''")
                   (simp add: script_succeeds_def)
      then show ?thesis
        using C S p bp by (simp add: legacy_block_eval script_present_def ev)
    qed
    from a b c show ?thesis by blast
  qed
  have 4: "\<not> runs (trace_of ?C) ?conf \<and> runs (trace_of ?C) ?build"
    if "script_present fs env ''install-build-tools.sh''"
       "script_present fs env ''setup-dependencies.sh''"
       "script_succeeds env prof ''install-build-tools.sh''"
       "script_succeeds env prof ''setup-dependencies.sh''"
    using C setup_modern_path[OF that] bp by (simp add: ev)
  from 1 2 3 4 show ?thesis by blast
qed

lemma concrete_present:
  "script_present (fs_with ps) (build_env_failing f) script
     = (''/data/sources/scripts/'' @ script \<in> set ps)"
  by (simp add: script_present_def fs_with_def paths build_env_failing_def)

lemma concrete_run:
  "script_run (build_env_failing f) prof script
     = (if bash (''/data/sources/scripts/'' @ script) \<in> set f
        then (''boom'', Some (External ''exit status 1'')) else ([], None))"
  by (simp add: script_run_def paths build_env_failing_def)

lemma concrete_path:
  "script_path (build_env_failing f) script = ''/data/sources/scripts/'' @ script"
  by (simp add: paths build_env_failing_def)

lemma fs_with_apply: "fs_with ps p = (if p \<in> set ps then None else Some ErrNotExist)"
  by (simp add: fs_with_def)

lemma concrete_reaches:
  assumes "''/data/binaries/abc.tar.gz'' \<notin> set ps"
    and "[''git'', ''checkout'', ''abc''] \<notin> set f"
    and "[''git'', ''submodule'', ''sync''] \<notin> set f"
    and "[''git'', ''submodule'', ''update'', ''--recursive''] \<notin> set f"
  shows "reaches_setup (build_env_failing f) (fs_with ps) ''abc'' False"
  using assms
  by (simp add: reaches_setup_def paths build_env_failing_def fs_with_def os_IsNotExist_def)

text \<open>
  The theorem in six worlds, one for each case: the first script fails; the first is
  missing and the second fails; the first is missing and \<open>configure.sh\<close> is missing,
  fails, succeeds; both scripts are there and succeed.
\<close>

theorem setup_fallback_on_absence_not_on_failure_witness:
  "(result_of (Compile (build_env_failing [bash install_sh])
                (fs_with [install_sh, deps_sh, configure_sh]) ''abc'' False True)
      = Some (Errorf ''Build-environment setup failed'' (External ''exit status 1'') ''boom'') \<and>
    runs (trace_of (Compile (build_env_failing [bash install_sh])
                (fs_with [install_sh, deps_sh, configure_sh]) ''abc'' False True))
         (bash configure_sh) = False) \<and>
   (result_of (Compile (build_env_failing [bash deps_sh])
                (fs_with [deps_sh, configure_sh]) ''abc'' False True)
      = Some (Errorf ''Dependency installation failed'' (External ''exit status 1'') ''boom'') \<and>
    runs (trace_of (Compile (build_env_failing [bash deps_sh])
                (fs_with [deps_sh, configure_sh]) ''abc'' False True))
         (bash configure_sh) = False) \<and>
   (result_of (Compile (build_env_failing []) (fs_with [deps_sh]) ''abc'' False True)
      = Some (Errorf ''Legacy configuration failed'' ErrNotExist []) \<and>
    runs (trace_of (Compile (build_env_failing []) (fs_with [deps_sh]) ''abc'' False True))
         (bash build_sh) = False) \<and>
   (result_of (Compile (build_env_failing [bash configure_sh])
                (fs_with [deps_sh, configure_sh]) ''abc'' False True)
      = Some (Errorf ''Legacy configuration failed'' (External ''exit status 1'') ''boom'') \<and>
    runs (trace_of (Compile (build_env_failing [bash configure_sh])
                (fs_with [deps_sh, configure_sh]) ''abc'' False True))
         (bash configure_sh) \<and>
    runs (trace_of (Compile (build_env_failing [bash configure_sh])
                (fs_with [deps_sh, configure_sh]) ''abc'' False True))
         (bash build_sh) = False) \<and>
   (runs (trace_of (Compile (build_env_failing []) (fs_with [deps_sh, configure_sh])
                      ''abc'' False True)) (bash configure_sh) \<and>
    runs (trace_of (Compile (build_env_failing []) (fs_with [deps_sh, configure_sh])
                      ''abc'' False True)) (bash build_sh)) \<and>
   (runs (trace_of (Compile (build_env_failing []) (fs_with [install_sh, deps_sh, configure_sh])
                      ''abc'' False True)) (bash configure_sh) = False \<and>
    runs (trace_of (Compile (build_env_failing []) (fs_with [install_sh, deps_sh, configure_sh])
                      ''abc'' False True)) (bash build_sh))"
proof -
  note T = setup_fallback_on_absence_not_on_failure
  note ev = concrete_present concrete_run concrete_path script_succeeds_def
    install_sh_def deps_sh_def configure_sh_def build_sh_def bash_def fs_with_apply
  have R: "reaches_setup (build_env_failing f) (fs_with ps) ''abc'' False"
    if "set ps \<subseteq> {install_sh, deps_sh, configure_sh}"
       "set f \<subseteq> {bash install_sh, bash deps_sh, bash configure_sh, bash build_sh}"
    for f ps
    using that
    by (intro concrete_reaches)
       (auto simp: install_sh_def deps_sh_def configure_sh_def build_sh_def bash_def)
  have 1: "result_of (Compile (build_env_failing [bash install_sh])
                (fs_with [install_sh, deps_sh, configure_sh]) ''abc'' False True)
      = Some (Errorf ''Build-environment setup failed'' (External ''exit status 1'') ''boom'') \<and>
    runs (trace_of (Compile (build_env_failing [bash install_sh])
                (fs_with [install_sh, deps_sh, configure_sh]) ''abc'' False True))
         (bash configure_sh) = False"
    using T[OF R[of "[install_sh, deps_sh, configure_sh]" "[bash install_sh]"],
            where out = "''boom''" and err = "External ''exit status 1''" and progress = True,
            THEN conjunct1]
    by (simp add: ev)
  have 2: "result_of (Compile (build_env_failing [bash deps_sh])
                (fs_with [deps_sh, configure_sh]) ''abc'' False True)
      = Some (Errorf ''Dependency installation failed'' (External ''exit status 1'') ''boom'') \<and>
    runs (trace_of (Compile (build_env_failing [bash deps_sh])
                (fs_with [deps_sh, configure_sh]) ''abc'' False True))
         (bash configure_sh) = False"
    using T[OF R[of "[deps_sh, configure_sh]" "[bash deps_sh]"],
            where out = "''boom''" and err = "External ''exit status 1''" and progress = True,
            THEN conjunct2, THEN conjunct1]
    by (simp add: ev)
  have 3: "result_of (Compile (build_env_failing []) (fs_with [deps_sh]) ''abc'' False True)
      = Some (Errorf ''Legacy configuration failed'' ErrNotExist []) \<and>
    runs (trace_of (Compile (build_env_failing []) (fs_with [deps_sh]) ''abc'' False True))
         (bash build_sh) = False"
    using T[OF R[of "[deps_sh]" "[]"],
            where staterr = ErrNotExist and progress = True,
            THEN conjunct2, THEN conjunct2, THEN conjunct1]
    by (simp add: ev)
  have 4: "result_of (Compile (build_env_failing [bash configure_sh])
                (fs_with [deps_sh, configure_sh]) ''abc'' False True)
      = Some (Errorf ''Legacy configuration failed'' (External ''exit status 1'') ''boom'') \<and>
    runs (trace_of (Compile (build_env_failing [bash configure_sh])
                (fs_with [deps_sh, configure_sh]) ''abc'' False True))
         (bash configure_sh) \<and>
    runs (trace_of (Compile (build_env_failing [bash configure_sh])
                (fs_with [deps_sh, configure_sh]) ''abc'' False True))
         (bash build_sh) = False"
    using T[OF R[of "[deps_sh, configure_sh]" "[bash configure_sh]"],
            where out = "''boom''" and err = "External ''exit status 1''" and progress = True,
            THEN conjunct2, THEN conjunct2, THEN conjunct1]
    by (simp add: ev)
  have 5: "runs (trace_of (Compile (build_env_failing []) (fs_with [deps_sh, configure_sh])
                      ''abc'' False True)) (bash configure_sh) \<and>
    runs (trace_of (Compile (build_env_failing []) (fs_with [deps_sh, configure_sh])
                      ''abc'' False True)) (bash build_sh)"
    using T[OF R[of "[deps_sh, configure_sh]" "[]"], where progress = True,
            THEN conjunct2, THEN conjunct2, THEN conjunct1]
    by (simp add: ev)
  have 6: "runs (trace_of (Compile (build_env_failing []) (fs_with [install_sh, deps_sh, configure_sh])
                      ''abc'' False True)) (bash configure_sh) = False \<and>
    runs (trace_of (Compile (build_env_failing []) (fs_with [install_sh, deps_sh, configure_sh])
                      ''abc'' False True)) (bash build_sh)"
    using T[OF R[of "[install_sh, deps_sh, configure_sh]" "[]"], where progress = True,
            THEN conjunct2, THEN conjunct2, THEN conjunct2]
    by (simp add: ev)
  from 1 2 3 4 5 6 show ?thesis by blast
qed

end
